theory Spec2Isabelle
  imports Main "HOL-Library.Word" "HOL-Library.Multiset"
begin

unbundle bit_operations_syntax

section \<open>Bytes, files, errors and the observable trace\<close>

type_synonym byte = "8 word"
type_synonym u32 = "32 word"

text \<open>
  The file system the program reads: a path is readable when the map has an entry for it.
  The program never writes a file.
\<close>

type_synonym filesystem = "string \<rightharpoonup> byte list"

text \<open>
  The Go \<^verbatim>\<open>error\<close> values of the program. The constructors carry the pieces that the
  format strings of the source put into the message:
  \<^item> \<open>PathError p\<close>: \<^verbatim>\<open>ioutil.ReadFile(p)\<close> failed;
  \<^item> \<open>UnmarshalError m\<close>: the error \<^verbatim>\<open>yamlUnmarshal\<close> returned;
  \<^item> \<open>HeightUnspecified\<close>: \<^verbatim>\<open>"launch_btc_block_height unspecified (or 0)"\<close>;
  \<^item> \<open>SnapshotMismatch\<close>: \<^verbatim>\<open>"snapshot hash doesn't match launch data"\<close>;
  \<^item> \<open>HashingError name err\<close>: \<^verbatim>\<open>"error hashing %q contract's code + abi: %s"\<close>;
  \<^item> \<open>CodeHashMismatch name\<close>: \<^verbatim>\<open>"%q contract's code hash don't match"\<close>;
  \<^item> \<open>CollaboratorError m\<close>: an error of a function whose code is not part of the two
    source files (\<^verbatim>\<open>LoadLocalConfig\<close>, \<^verbatim>\<open>WalletPublicKeys\<close>, \<^verbatim>\<open>NewSnapshot\<close>,
    \<^verbatim>\<open>ShuffleProducers\<close>, \<^verbatim>\<open>Run\<close>).
\<close>

datatype error =
    PathError string
  | UnmarshalError string
  | HeightUnspecified
  | SnapshotMismatch
  | HashingError string error
  | CodeHashMismatch string
  | CollaboratorError string

text \<open>The contract names an error message mentions (through \<^verbatim>\<open>%q\<close> of \<^verbatim>\<open>name\<close>).\<close>

fun namedContracts :: "error \<Rightarrow> string list" where
  "namedContracts (HashingError name err) = [name]"
| "namedContracts (CodeHashMismatch name) = [name]"
| "namedContracts _ = []"

text \<open>
  What a run does that can be observed from outside, in the order it happens:
  \<^item> \<open>EvReadFile p\<close>: a call of \<^verbatim>\<open>ioutil.ReadFile(p)\<close>, whether it succeeds or not;
  \<^item> \<open>EvDigest d\<close>: \<^verbatim>\<open>hex.EncodeToString(h.Sum(nil))\<close> produced the digest \<open>d\<close>;
  \<^item> \<open>EvPrintSnapshotHash p d\<close>: \<^verbatim>\<open>fmt.Printf("Hash of %q: %s\n", p, d)\<close>;
  \<^item> \<open>EvPrintCodeHash c a d\<close>: \<^verbatim>\<open>fmt.Printf("Hash of %q and %q: %s\n", c, a, d)\<close>;
  \<^item> \<open>EvNew url\<close>: \<^verbatim>\<open>eos.New(url, chainID)\<close>, the creation of an API client;
  \<^item> \<open>EvNewWalletSigner\<close>, \<open>EvSetSigner\<close>: the two signer calls of \<^verbatim>\<open>main\<close>;
  \<^item> \<open>EvWalletPublicKeys\<close>: the wallet query \<^verbatim>\<open>wallet.WalletPublicKeys()\<close>;
  \<^item> \<open>EvNewSnapshot p\<close>, \<open>EvNewBIOS\<close>: \<^verbatim>\<open>NewSnapshot(p)\<close> and \<^verbatim>\<open>NewBIOS(...)\<close>;
  \<^item> \<open>EvShuffleProducers\<close>: \<^verbatim>\<open>bios.ShuffleProducers(...)\<close>;
  \<^item> \<open>EvRun\<close>: \<^verbatim>\<open>bios.Run()\<close>, which submits the boot transactions;
  \<^item> \<open>EvPrintDone\<close>: the final \<^verbatim>\<open>fmt.Printf("Done at ...")\<close>.
\<close>

datatype event =
    EvReadFile string
  | EvDigest string
  | EvPrintSnapshotHash string string
  | EvPrintCodeHash string string string
  | EvNew string
  | EvNewWalletSigner
  | EvSetSigner
  | EvWalletPublicKeys
  | EvNewSnapshot string
  | EvNewBIOS
  | EvShuffleProducers
  | EvRun
  | EvPrintDone

text \<open>Network calls: API client creation, the wallet query, transaction submission.\<close>

definition isNetworkCall :: "event \<Rightarrow> bool" where
  "isNetworkCall e =
     (case e of EvNew url \<Rightarrow> True | EvWalletPublicKeys \<Rightarrow> True | EvRun \<Rightarrow> True | _ \<Rightarrow> False)"

text \<open>The hash an event prints, if it is one of the two hash prints.\<close>

definition printedHash :: "event \<Rightarrow> string option" where
  "printedHash e =
     (case e of EvPrintSnapshotHash p d \<Rightarrow> Some d | EvPrintCodeHash c a d \<Rightarrow> Some d
      | _ \<Rightarrow> None)"

text \<open>The hashes a trace prints, in order.\<close>

definition printedHashes :: "event list \<Rightarrow> string list" where
  "printedHashes t = List.map_filter printedHash t"

text \<open>
  A trace is audited when every digest event is followed at once by the print of that
  same digest, that is, before anything is done with the digest.
\<close>

definition surfacedBy :: "event \<Rightarrow> event \<Rightarrow> bool" where
  "surfacedBy e e' = (case e of EvDigest d \<Rightarrow> printedHash e' = Some d | _ \<Rightarrow> True)"

fun audited :: "event list \<Rightarrow> bool" where
  "audited [] = True"
| "audited [e] = (case e of EvDigest d \<Rightarrow> False | _ \<Rightarrow> True)"
| "audited (e # e' # t) = (surfacedBy e e' \<and> audited (e' # t))"

text \<open>
  \<^verbatim>\<open>ioutil.ReadFile\<close>: the content and no error, or no content and the error. Each call is
  one event of the trace.
\<close>

definition ReadFile :: "filesystem \<Rightarrow> string \<Rightarrow> (byte list \<times> error option) \<times> event list" where
  "ReadFile fs filename =
     (case fs filename of
        None \<Rightarrow> (([], Some (PathError filename)), [EvReadFile filename])
      | Some cnt \<Rightarrow> ((cnt, None), [EvReadFile filename]))"

section \<open>The library functions of the hashers\<close>

subsection \<open>\<^verbatim>\<open>crypto/sha256\<close>\<close>

text \<open>
  SHA-256 as the Go standard library computes it (FIPS 180-4): the round constants, the
  initial hash value, the message schedule, the compression of one 64-byte block, the
  padding, and the digest as 32 bytes, most significant byte first.
\<close>

definition K256 :: "u32 list" where
  "K256 =
    [1116352408, 1899447441, 3049323471, 3921009573,
     961987163, 1508970993, 2453635748, 2870763221,
     3624381080, 310598401, 607225278, 1426881987,
     1925078388, 2162078206, 2614888103, 3248222580,
     3835390401, 4022224774, 264347078, 604807628,
     770255983, 1249150122, 1555081692, 1996064986,
     2554220882, 2821834349, 2952996808, 3210313671,
     3336571891, 3584528711, 113926993, 338241895,
     666307205, 773529912, 1294757372, 1396182291,
     1695183700, 1986661051, 2177026350, 2456956037,
     2730485921, 2820302411, 3259730800, 3345764771,
     3516065817, 3600352804, 4094571909, 275423344,
     430227734, 506948616, 659060556, 883997877,
     958139571, 1322822218, 1537002063, 1747873779,
     1955562222, 2024104815, 2227730452, 2361852424,
     2428436474, 2756734187, 3204031479, 3329325298]"

type_synonym digest = "u32 \<times> u32 \<times> u32 \<times> u32 \<times> u32 \<times> u32 \<times> u32 \<times> u32"

definition init256 :: digest where
  "init256 = (1779033703, 3144134277, 1013904242, 2773480762,
              1359893119, 2600822924, 528734635, 1541459225)"

definition rotr :: "nat \<Rightarrow> u32 \<Rightarrow> u32" where
  "rotr n x = drop_bit n x OR push_bit (32 - n) x"

definition sha_round :: "digest \<Rightarrow> u32 \<times> u32 \<Rightarrow> digest" where
  "sha_round s kw =
     (case s of (a, b, c, d, e, f, g, h) \<Rightarrow>
        let t1 = h + (rotr 6 e XOR rotr 11 e XOR rotr 25 e)
                   + ((e AND f) XOR (NOT e AND g)) + fst kw + snd kw;
            t2 = (rotr 2 a XOR rotr 13 a XOR rotr 22 a)
                   + ((a AND b) XOR (a AND c) XOR (b AND c))
        in (t1 + t2, a, b, c, d + t1, e, f, g))"

fun schedule :: "nat \<Rightarrow> u32 list \<Rightarrow> u32 list" where
  "schedule 0 w = w"
| "schedule (Suc n) w =
     (let i = length w;
          v1 = w ! (i - 2); v0 = w ! (i - 15);
          s0 = rotr 7 v0 XOR rotr 18 v0 XOR drop_bit 3 v0;
          s1 = rotr 17 v1 XOR rotr 19 v1 XOR drop_bit 10 v1
      in schedule n (w @ [w ! (i - 16) + s0 + w ! (i - 7) + s1]))"

definition be_word :: "byte list \<Rightarrow> u32" where
  "be_word bs = foldl (\<lambda>acc b. push_bit 8 acc OR ucast b) 0 bs"

fun chunks :: "nat \<Rightarrow> 'a list \<Rightarrow> 'a list list" where
  "chunks n xs = (if n = 0 \<or> xs = [] then [] else take n xs # chunks n (drop n xs))"

definition sha_block :: "digest \<Rightarrow> byte list \<Rightarrow> digest" where
  "sha_block s blk =
     (case s of (a, b, c, d, e, f, g, h) \<Rightarrow>
        case foldl sha_round s (zip K256 (schedule 48 (map be_word (chunks 4 blk)))) of
          (a', b', c', d', e', f', g', h') \<Rightarrow>
            (a + a', b + b', c + c', d + d', e + e', f + f', g + g', h + h'))"

definition be_bytes32 :: "u32 \<Rightarrow> byte list" where
  "be_bytes32 w = [ucast (drop_bit 24 w), ucast (drop_bit 16 w), ucast (drop_bit 8 w), ucast w]"

definition be_bytes64 :: "64 word \<Rightarrow> byte list" where
  "be_bytes64 w = map (\<lambda>i. ucast (drop_bit (8 * i) w)) [7, 6, 5, 4, 3, 2, 1, 0]"

definition sha_pad :: "byte list \<Rightarrow> byte list" where
  "sha_pad msg =
     msg @ [128] @ replicate ((64 - (length msg + 9) mod 64) mod 64) 0
         @ be_bytes64 (of_nat (8 * length msg))"

definition Sum256 :: "byte list \<Rightarrow> byte list" where
  "Sum256 msg =
     (case foldl sha_block init256 (chunks 64 (sha_pad msg)) of
        (a, b, c, d, e, f, g, h) \<Rightarrow>
          concat (map be_bytes32 [a, b, c, d, e, f, g, h]))"

text \<open>
  The \<^verbatim>\<open>hash.Hash\<close> object \<^verbatim>\<open>h\<close> of the hashers: its state is the bytes written so far,
  \<^verbatim>\<open>h.Write(p)\<close> appends, \<^verbatim>\<open>h.Sum(nil)\<close> is the digest of everything written.
\<close>

type_synonym hasher = "byte list"

definition sha256_New :: hasher where
  "sha256_New = []"

definition hash_Write :: "hasher \<Rightarrow> byte list \<Rightarrow> hasher" where
  "hash_Write h p = h @ p"

definition hash_Sum :: "hasher \<Rightarrow> byte list" where
  "hash_Sum h = Sum256 h"

subsection \<open>\<^verbatim>\<open>encoding/hex\<close>\<close>

definition hextable :: string where
  "hextable = ''0123456789abcdef''"

definition EncodeToString :: "byte list \<Rightarrow> string" where
  "EncodeToString src =
     concat (map (\<lambda>v. [hextable ! unat (drop_bit 4 v), hextable ! unat (v AND 15)]) src)"

section \<open>The hashers\<close>

text \<open>
  \<^verbatim>\<open>hashFile\<close> and \<^verbatim>\<open>hashCodeFiles\<close> return the Go pair (digest string, error) and the
  events of the call. On a read error the digest string is \<^verbatim>\<open>""\<close>.
\<close>

definition hashFile :: "filesystem \<Rightarrow> string \<Rightarrow> (string \<times> error option) \<times> event list" where
  "hashFile fs filename =
     (let h = sha256_New;
          ((cnt, err), t) = ReadFile fs filename
      in if err \<noteq> None then (('''', err), t)
         else let h = hash_Write h cnt;
                  d = EncodeToString (hash_Sum h)
              in ((d, None), t @ [EvDigest d]))"

definition hashCodeFiles ::
    "filesystem \<Rightarrow> string \<Rightarrow> string \<Rightarrow> (string \<times> error option) \<times> event list" where
  "hashCodeFiles fs code abi =
     (let h = sha256_New;
          ((cnt, err), t1) = ReadFile fs code
      in if err \<noteq> None then (('''', err), t1)
         else let h = hash_Write h cnt;
                  h = hash_Write h [58];
                  ((cnt, err), t2) = ReadFile fs abi
              in if err \<noteq> None then (('''', err), t1 @ t2)
                 else let h = hash_Write h cnt;
                          d = EncodeToString (hash_Sum h)
                      in ((d, None), t1 @ t2 @ [EvDigest d]))"

section \<open>The launch data and the local configuration\<close>

text \<open>
  \<^verbatim>\<open>eos.Authority\<close> and \<^verbatim>\<open>ecc.PublicKey\<close> are types of the \<^verbatim>\<open>eos-go\<close> library; the
  program passes their values through and never looks inside.
\<close>

typedecl Authority
typedecl PublicKey

record ProducerDef =
  AccountName :: string
  AuthorityOwner :: Authority
  AuthorityActive :: Authority
  InitialBlockSigningPublicKey :: PublicKey
  KeybaseUser :: string
  PGPPublicKey :: string
  OrganizationName :: string
  URLs :: "string list"

record ContractHashes =
  BIOS :: string
  System :: string
  Msig :: string
  Token :: string

record LaunchData =
  LaunchBitcoinBlockHeight :: "64 word"
  OpeningBalancesSnapshotHash :: string
  ContractHashes :: ContractHashes
  Producers :: "ProducerDef list"

text \<open>
  Modelled from the spec: the declaration of \<^verbatim>\<open>Config\<close> and \<^verbatim>\<open>ContractLocation\<close> is not
  in the two source files. The records have the fields the source reads
  (\<^verbatim>\<open>config.OpeningBalances.SnapshotPath\<close>, \<^verbatim>\<open>config.Contracts.BIOS\<close> and its three
  siblings, \<^verbatim>\<open>location.CodePath\<close>, \<^verbatim>\<open>location.ABIPath\<close>,
  \<^verbatim>\<open>config.Producer.apiAddressURL\<close>, \<^verbatim>\<open>config.Producer.walletAddressURL\<close>): the
  spec's local configuration "supplies the API endpoint and wallet endpoint addresses,
  the snapshot file path, and the four contract code/ABI file path pairs". The four
  locations are named \<open>locBIOS\<close> ... \<open>locToken\<close> here, as \<open>BIOS\<close> ... \<open>Token\<close> are the
  fields of \<open>ContractHashes\<close>.
\<close>

record ContractLocation =
  CodePath :: string
  ABIPath :: string

record ConfigOpeningBalances =
  SnapshotPath :: string

record ConfigContracts =
  locBIOS :: ContractLocation
  locSystem :: ContractLocation
  locMsig :: ContractLocation
  locToken :: ContractLocation

record ConfigProducer =
  apiAddressURL :: string
  walletAddressURL :: string

record Config =
  OpeningBalances :: ConfigOpeningBalances
  Contracts :: ConfigContracts
  Producer :: ConfigProducer

record contractCompare =
  location :: ContractLocation
  hash :: string

definition newCC :: "ContractLocation \<Rightarrow> string \<Rightarrow> contractCompare" where
  "newCC loc h = \<lparr>location = loc, hash = h\<rparr>"

section \<open>\<^verbatim>\<open>loadLaunchFile\<close>\<close>

text \<open>The map literal that the loop of \<^verbatim>\<open>loadLaunchFile\<close> ranges over.\<close>

definition contractMap :: "Config \<Rightarrow> LaunchData \<Rightarrow> (string \<rightharpoonup> contractCompare)" where
  "contractMap config out =
     [''bios'' \<mapsto> newCC (locBIOS (Contracts config)) (BIOS (ContractHashes out)),
      ''system'' \<mapsto> newCC (locSystem (Contracts config)) (System (ContractHashes out)),
      ''msig'' \<mapsto> newCC (locMsig (Contracts config)) (Msig (ContractHashes out)),
      ''token'' \<mapsto> newCC (locToken (Contracts config)) (Token (ContractHashes out))]"

definition contractNames :: "string list" where
  "contractNames = [''bios'', ''system'', ''msig'', ''token'']"

text \<open>
  Go leaves the order in which \<^verbatim>\<open>range\<close> visits the keys of a map open. The order is a
  parameter of the model: a list of keys. It is an order of the map literal above when it
  holds each of the four keys once.
\<close>

definition rangeOrder :: "string list \<Rightarrow> bool" where
  "rangeOrder order \<longleftrightarrow> distinct order \<and> set order = set contractNames"

text \<open>
  The loop body, from the first key of the order on. The loop returns at the first
  hashing error and at the first hash that differs; the result is the error of that
  \<^verbatim>\<open>return nil, ...\<close>, or \<open>None\<close> when the loop runs to its end. A name that is not a key
  of the map is never visited.
\<close>

fun rangeContracts ::
    "filesystem \<Rightarrow> (string \<rightharpoonup> contractCompare) \<Rightarrow> string list \<Rightarrow> error option \<times> event list" where
  "rangeContracts fs m [] = (None, [])"
| "rangeContracts fs m (name # rest) =
     (case m name of
        None \<Rightarrow> rangeContracts fs m rest
      | Some cmp \<Rightarrow>
          (case hashCodeFiles fs (CodePath (location cmp)) (ABIPath (location cmp)) of
             ((codeHash, Some err), t1) \<Rightarrow> (Some (HashingError name err), t1)
           | ((codeHash, None), t1) \<Rightarrow>
               (let t2 = t1 @ [EvPrintCodeHash (CodePath (location cmp))
                                 (ABIPath (location cmp)) codeHash]
                in if codeHash \<noteq> hash cmp then (Some (CodeHashMismatch name), t2)
                   else (case rangeContracts fs m rest of (r, t3) \<Rightarrow> (r, t2 @ t3)))))"

text \<open>
  A Go call either returns or panics. \<^verbatim>\<open>loadLaunchFile\<close> dereferences the pointers
  \<^verbatim>\<open>out\<close> and \<^verbatim>\<open>config\<close>; a nil pointer there is a panic.
\<close>

datatype 'a outcome = Return 'a | Panic

text \<open>
  \<^verbatim>\<open>yamlUnmarshal\<close> is not in the two source files: it is a parameter, a function from
  the bytes of the manifest to the value it leaves in \<^verbatim>\<open>out\<close> (a pointer that starts as
  nil) and the error it returns.
\<close>

type_synonym unmarshal = "byte list \<Rightarrow> LaunchData option \<times> error option"

definition loadLaunchFile ::
    "unmarshal \<Rightarrow> string list \<Rightarrow> filesystem \<Rightarrow> string \<Rightarrow> Config option
       \<Rightarrow> (LaunchData option \<times> error option) outcome \<times> event list" where
  "loadLaunchFile yamlUnmarshal order fs filename config =
     (case ReadFile fs filename of
        ((cnt, Some err), t0) \<Rightarrow> (Return (None, Some err), t0)
      | ((cnt, None), t0) \<Rightarrow>
     (case yamlUnmarshal cnt of
        (out, Some err) \<Rightarrow> (Return (None, Some err), t0)
      | (None, None) \<Rightarrow> (Panic, t0)
      | (Some out, None) \<Rightarrow>
     if LaunchBitcoinBlockHeight out = 0 then (Return (None, Some HeightUnspecified), t0)
     else
     (case config of
        None \<Rightarrow> (Panic, t0)
      | Some cfg \<Rightarrow>
     (case hashFile fs (SnapshotPath (OpeningBalances cfg)) of
        ((snapshotHash, Some err), t1) \<Rightarrow> (Return (None, Some err), t0 @ t1)
      | ((snapshotHash, None), t1) \<Rightarrow>
     (let t2 = t0 @ t1 @ [EvPrintSnapshotHash (SnapshotPath (OpeningBalances cfg)) snapshotHash]
      in if snapshotHash \<noteq> OpeningBalancesSnapshotHash out
         then (Return (None, Some SnapshotMismatch), t2)
         else
     (case rangeContracts fs (contractMap cfg out) order of
        (Some err, t3) \<Rightarrow> (Return (None, Some err), t2 @ t3)
      | (None, t3) \<Rightarrow> (Return (Some out, None), t2 @ t3)))))))"

section \<open>\<^verbatim>\<open>main\<close>\<close>

text \<open>
  The functions \<^verbatim>\<open>main\<close> calls whose code is not in the two source files, as
  parameters: each field is the outcome of the call. \<open>mapOrder\<close> is the order in which
  the loop of \<^verbatim>\<open>loadLaunchFile\<close> visits the map in this run.
\<close>

record env =
  LoadLocalConfig :: "string \<Rightarrow> Config option \<times> error option"
  yamlUnmarshal :: unmarshal
  mapOrder :: "string list"
  WalletPublicKeys :: "error option"
  NewSnapshot :: "string \<Rightarrow> error option"
  ShuffleProducers :: "error option"
  Run :: "error option"

text \<open>
  How the process ends: \<open>Fatal msg err\<close> is \<^verbatim>\<open>log.Fatalln(msg, err)\<close> or
  \<^verbatim>\<open>log.Fatalf\<close>, which print and exit with status 1; \<open>NilPanic\<close> is a nil pointer
  dereference; \<open>Done\<close> is the return of \<^verbatim>\<open>main\<close>.
\<close>

datatype exit = Fatal string "error option" | NilPanic | Done

text \<open>
  \<^verbatim>\<open>main\<close>, from the parsed flags on. The two \<^verbatim>\<open>if err != nil\<close> after \<^verbatim>\<open>eos.New\<close> test the
  \<^verbatim>\<open>err\<close> of \<^verbatim>\<open>loadLaunchFile\<close>, which is nil there: they never fire.
\<close>

definition main :: "env \<Rightarrow> filesystem \<Rightarrow> string \<Rightarrow> string \<Rightarrow> exit \<times> event list" where
  "main e fs localConfig launchData =
     (if localConfig = '''' \<or> launchData = ''''
      then (Fatal ''missing --launch-data or --local-config'' None, [])
      else
     (case LoadLocalConfig e localConfig of
        (config, Some err) \<Rightarrow> (Fatal ''local config load error:'' (Some err), [])
      | (config, None) \<Rightarrow>
     (case loadLaunchFile (yamlUnmarshal e) (mapOrder e) fs launchData config of
        (Panic, t) \<Rightarrow> (NilPanic, t)
      | (Return (launch, Some err), t) \<Rightarrow> (Fatal ''launch data error:'' (Some err), t)
      | (Return (None, None), t) \<Rightarrow> (NilPanic, t)
      | (Return (Some launch, None), t) \<Rightarrow>
     (case config of
        None \<Rightarrow> (NilPanic, t)
      | Some cfg \<Rightarrow>
     (let t = t @ [EvNew (apiAddressURL (Producer cfg)),
                   EvNew (walletAddressURL (Producer cfg)),
                   EvNewWalletSigner, EvSetSigner, EvWalletPublicKeys]
      in case WalletPublicKeys e of
           Some err \<Rightarrow> (Fatal ''Wallet node not accessible: %s'' (Some err), t)
         | None \<Rightarrow>
     (let t = t @ [EvNewSnapshot (SnapshotPath (OpeningBalances cfg))]
      in case NewSnapshot e (SnapshotPath (OpeningBalances cfg)) of
           Some err \<Rightarrow> (Fatal ''Failed loading snapshot csv:'' (Some err), t)
         | None \<Rightarrow>
     (let t = t @ [EvNewBIOS, EvShuffleProducers]
      in case ShuffleProducers e of
           Some err \<Rightarrow> (Fatal ''Failed shuffling:'' (Some err), t)
         | None \<Rightarrow>
     (let t = t @ [EvRun]
      in case Run e of
           Some err \<Rightarrow> (Fatal ''ERROR RUNNING BIOS: %s'' (Some err), t)
         | None \<Rightarrow> (Done, t @ [EvPrintDone])))))))))"

section \<open>Notions the statements use\<close>

text \<open>The events of hashing and printing: they touch local files and the output only.\<close>

definition isLocal :: "event \<Rightarrow> bool" where
  "isLocal e =
     (case e of EvReadFile p \<Rightarrow> True | EvDigest d \<Rightarrow> True
      | EvPrintSnapshotHash p d \<Rightarrow> True | EvPrintCodeHash c a d \<Rightarrow> True | _ \<Rightarrow> False)"

text \<open>
  A local artifact matches the manifest when its hasher returns the declared hash and no
  error. All artifacts match when the snapshot and the four contracts do.
\<close>

definition snapshotMatches :: "filesystem \<Rightarrow> Config \<Rightarrow> LaunchData \<Rightarrow> bool" where
  "snapshotMatches fs config out \<longleftrightarrow>
     fst (hashFile fs (SnapshotPath (OpeningBalances config)))
       = (OpeningBalancesSnapshotHash out, None)"

definition contractMatches :: "filesystem \<Rightarrow> contractCompare \<Rightarrow> bool" where
  "contractMatches fs cmp \<longleftrightarrow>
     fst (hashCodeFiles fs (CodePath (location cmp)) (ABIPath (location cmp)))
       = (hash cmp, None)"

text \<open>
  A key of the map is a mismatch when the artifacts of its entry do not match. The
  mismatched contracts are the mismatches among the four keys of the map literal, in
  the literal's order.
\<close>

definition contractMismatch :: "filesystem \<Rightarrow> (string \<rightharpoonup> contractCompare) \<Rightarrow> string \<Rightarrow> bool" where
  "contractMismatch fs m name =
     (case m name of None \<Rightarrow> False | Some cmp \<Rightarrow> \<not> contractMatches fs cmp)"

definition mismatched :: "filesystem \<Rightarrow> Config \<Rightarrow> LaunchData \<Rightarrow> string list" where
  "mismatched fs config out = filter (contractMismatch fs (contractMap config out)) contractNames"

definition allMatch :: "filesystem \<Rightarrow> Config \<Rightarrow> LaunchData \<Rightarrow> bool" where
  "allMatch fs config out \<longleftrightarrow> snapshotMatches fs config out \<and> mismatched fs config out = []"

section \<open>A launch to run the program on\<close>

definition exConfig :: Config where
  "exConfig =
     \<lparr>OpeningBalances = \<lparr>SnapshotPath = ''snapshot.csv''\<rparr>,
      Contracts =
        \<lparr>locBIOS = \<lparr>CodePath = ''eosio.bios.wasm'', ABIPath = ''eosio.bios.abi''\<rparr>,
         locSystem = \<lparr>CodePath = ''eosio.system.wasm'', ABIPath = ''eosio.system.abi''\<rparr>,
         locMsig = \<lparr>CodePath = ''eosio.msig.wasm'', ABIPath = ''eosio.msig.abi''\<rparr>,
         locToken = \<lparr>CodePath = ''eosio.token.wasm'', ABIPath = ''eosio.token.abi''\<rparr>\<rparr>,
      Producer = \<lparr>apiAddressURL = ''http://localhost:8888'',
                  walletAddressURL = ''http://localhost:6666''\<rparr>\<rparr>"

definition exFiles :: filesystem where
  "exFiles =
     [''launch.yaml'' \<mapsto> [108, 97, 117, 110, 99, 104],
      ''snapshot.csv'' \<mapsto> [97, 44, 49, 48],
      ''eosio.bios.wasm'' \<mapsto> [0, 97, 115, 109, 1], ''eosio.bios.abi'' \<mapsto> [123, 125],
      ''eosio.system.wasm'' \<mapsto> [0, 97, 115, 109, 2], ''eosio.system.abi'' \<mapsto> [123, 125],
      ''eosio.msig.wasm'' \<mapsto> [0, 97, 115, 109, 3], ''eosio.msig.abi'' \<mapsto> [123, 125],
      ''eosio.token.wasm'' \<mapsto> [0, 97, 115, 109, 4], ''eosio.token.abi'' \<mapsto> [123, 125]]"

text \<open>The digests of the files above, as the two hashers compute them.\<close>

definition exSnapshotHash :: string where
  "exSnapshotHash = EncodeToString (Sum256 [97, 44, 49, 48])"

definition exCodeHash :: "byte \<Rightarrow> string" where
  "exCodeHash k = EncodeToString (Sum256 ([0, 97, 115, 109, k] @ [58] @ [123, 125]))"

text \<open>A manifest that declares exactly these digests, with the given producers.\<close>

definition exLaunch :: "ProducerDef list \<Rightarrow> LaunchData" where
  "exLaunch ps =
     \<lparr>LaunchBitcoinBlockHeight = 500000,
      OpeningBalancesSnapshotHash = exSnapshotHash,
      ContractHashes = \<lparr>BIOS = exCodeHash 1, System = exCodeHash 2,
                        Msig = exCodeHash 3, Token = exCodeHash 4\<rparr>,
      Producers = ps\<rparr>"

text \<open>
  A run in which the collaborators all succeed: the configuration loads, the manifest
  unmarshals to the given launch data, and the map is visited in the given order.
\<close>

definition exEnv :: "LaunchData \<Rightarrow> string list \<Rightarrow> env" where
  "exEnv launch order =
     \<lparr>LoadLocalConfig = (\<lambda>p. (Some exConfig, None)),
      yamlUnmarshal = (\<lambda>cnt. (Some launch, None)),
      mapOrder = order,
      WalletPublicKeys = None,
      NewSnapshot = (\<lambda>p. None),
      ShuffleProducers = None,
      Run = None\<rparr>"

text \<open>A producer definition for the account \<open>name\<close>.\<close>

definition exProducer :: "string \<Rightarrow> Authority \<Rightarrow> PublicKey \<Rightarrow> ProducerDef" where
  "exProducer name auth key =
     \<lparr>AccountName = name, AuthorityOwner = auth, AuthorityActive = auth,
      InitialBlockSigningPublicKey = key, KeybaseUser = name, PGPPublicKey = [],
      OrganizationName = name, URLs = []\<rparr>"

text \<open>
  Manifests that differ from the one above: one that declares another snapshot hash, one
  that declares other hashes for two contracts, one without the block height, and one
  with two producers of the same account name.
\<close>

definition exWrongSnapshot :: LaunchData where
  "exWrongSnapshot = (exLaunch [])\<lparr>OpeningBalancesSnapshotHash := ''deadbeef''\<rparr>"

definition exTwoWrong :: LaunchData where
  "exTwoWrong =
     (exLaunch [])\<lparr>ContractHashes :=
        \<lparr>BIOS = ''deadbeef'', System = ''deadbeef'',
         Msig = exCodeHash 3, Token = exCodeHash 4\<rparr>\<rparr>"

definition exZeroHeight :: LaunchData where
  "exZeroHeight = (exLaunch [])\<lparr>LaunchBitcoinBlockHeight := 0\<rparr>"

definition exDuplicates :: "Authority \<Rightarrow> PublicKey \<Rightarrow> LaunchData" where
  "exDuplicates auth key = exLaunch [exProducer ''alice'' auth key, exProducer ''alice'' auth key]"

text \<open>
  Two files whose contents differ, for the combined hash in both orders, and a third
  file that holds their plain concatenation.
\<close>

definition exSwapFiles :: filesystem where
  "exSwapFiles = [''A'' \<mapsto> [97], ''B'' \<mapsto> [97, 58, 97], ''AB'' \<mapsto> [97, 97, 58, 97]]"

section \<open>Facts about the library functions and the hashers\<close>

lemma length_be_bytes32: "length (be_bytes32 w) = 4"
  by (simp add: be_bytes32_def)

lemma length_Sum256: "length (Sum256 msg) = 32"
proof -
  obtain a b c d e f g' where
    "foldl sha_block init256 (chunks 64 (sha_pad msg)) = (a, b, c, d, e, f, g')"
    by (cases "foldl sha_block init256 (chunks 64 (sha_pad msg))" rule: prod_cases7)
  moreover obtain g h where "g' = (g, h)"
    by (cases g')
  ultimately show ?thesis
    by (simp add: Sum256_def length_be_bytes32)
qed

lemma distinct_hextable: "distinct hextable" "length hextable = 16"
  by (simp_all add: hextable_def)

lemma hex_nth_inj:
  "i < 16 \<Longrightarrow> j < 16 \<Longrightarrow> hextable ! i = hextable ! j \<Longrightarrow> i = j"
  using distinct_hextable by (simp add: nth_eq_iff_index_eq)

lemma length_EncodeToString: "length (EncodeToString src) = 2 * length src"
  by (induction src) (simp_all add: EncodeToString_def)

lemma digest_length: "length (EncodeToString (Sum256 msg)) = 64"
  by (simp add: length_EncodeToString length_Sum256)

lemma ReadFile_Some: "fs p = Some cnt \<Longrightarrow> ReadFile fs p = ((cnt, None), [EvReadFile p])"
  by (simp add: ReadFile_def)

lemma ReadFile_None: "fs p = None \<Longrightarrow> ReadFile fs p = (([], Some (PathError p)), [EvReadFile p])"
  by (simp add: ReadFile_def)

lemma hashFile_Some:
  "fs p = Some cnt \<Longrightarrow>
   hashFile fs p = ((EncodeToString (Sum256 cnt), None),
                    [EvReadFile p, EvDigest (EncodeToString (Sum256 cnt))])"
  by (simp add: hashFile_def ReadFile_Some sha256_New_def hash_Write_def hash_Sum_def Let_def)

lemma hashFile_None:
  "fs p = None \<Longrightarrow> hashFile fs p = (('''', Some (PathError p)), [EvReadFile p])"
  by (simp add: hashFile_def ReadFile_None)

lemma hashCodeFiles_Some:
  "fs code = Some a \<Longrightarrow> fs abi = Some b \<Longrightarrow>
   hashCodeFiles fs code abi =
     ((EncodeToString (Sum256 (a @ [58] @ b)), None),
      [EvReadFile code, EvReadFile abi, EvDigest (EncodeToString (Sum256 (a @ [58] @ b)))])"
  by (simp add: hashCodeFiles_def ReadFile_Some sha256_New_def hash_Write_def hash_Sum_def Let_def)

lemma hashCodeFiles_code_None:
  "fs code = None \<Longrightarrow>
   hashCodeFiles fs code abi = (('''', Some (PathError code)), [EvReadFile code])"
  by (simp add: hashCodeFiles_def ReadFile_None)

lemma hashCodeFiles_abi_None:
  "fs code = Some a \<Longrightarrow> fs abi = None \<Longrightarrow>
   hashCodeFiles fs code abi = (('''', Some (PathError abi)), [EvReadFile code, EvReadFile abi])"
  by (simp add: hashCodeFiles_def ReadFile_None ReadFile_Some)

lemma nibbles_eq:
  fixes v w :: byte
  assumes "drop_bit 4 v = drop_bit 4 w" "v AND 15 = w AND 15"
  shows "v = w"
proof -
  have m: "(15::byte) = mask 4"
    by (simp add: mask_eq_exp_minus_1)
  have tb: "take_bit 4 v = take_bit 4 w"
    using assms(2) by (simp only: m take_bit_eq_mask)
  have "v = push_bit 4 (drop_bit 4 v) + take_bit 4 v"
    by (rule bits_ident [symmetric])
  also have "\<dots> = push_bit 4 (drop_bit 4 w) + take_bit 4 w"
    by (simp only: assms(1) tb)
  also have "\<dots> = w"
    by (rule bits_ident)
  finally show ?thesis .
qed

lemma nibble_hi:
  fixes v :: byte
  shows "unat (drop_bit 4 v) < 16" 
proof -
  have "unat v < 2 ^ LENGTH(8)" by (rule unsigned_less)
  then have "unat v < 256" by simp
  then have "unat v div 2 ^ 4 < 16" by simp
  moreover have "unat (drop_bit 4 v) = drop_bit 4 (unat v)"
    by (rule unat_drop_bit_eq)
  moreover have "drop_bit 4 (unat v) = unat v div 2 ^ 4"
    by (rule drop_bit_eq_div)
  ultimately show "unat (drop_bit 4 v) < 16"
    by (simp only:)
qed

lemma nibble_lo:
  fixes v :: byte
  shows "unat (v AND 15) < 16"
proof -
  have "unat (v AND 15) \<le> unat (15 :: byte)"
    by (rule word_and_le1 [THEN word_le_nat_alt [THEN iffD1]])
  then show "unat (v AND 15) < 16" by simp
qed

lemma hex_byte_inj:
  fixes v w :: byte
  assumes "hextable ! unat (drop_bit 4 v) = hextable ! unat (drop_bit 4 w)"
    and "hextable ! unat (v AND 15) = hextable ! unat (w AND 15)"
  shows "v = w"
proof -
  have "unat (drop_bit 4 v) = unat (drop_bit 4 w)"
    by (rule hex_nth_inj [OF nibble_hi nibble_hi assms(1)])
  then have hi: "drop_bit 4 v = drop_bit 4 w"
    by (simp only: word_unat_eq_iff)
  have "unat (v AND 15) = unat (w AND 15)"
    by (rule hex_nth_inj [OF nibble_lo nibble_lo assms(2)])
  then have lo: "v AND 15 = w AND 15"
    by (simp only: word_unat_eq_iff)
  show ?thesis
    by (rule nibbles_eq [OF hi lo])
qed

lemma EncodeToString_Nil: "EncodeToString [] = []"
  by (simp add: EncodeToString_def)

lemma EncodeToString_Cons:
  "EncodeToString (v # a) =
     hextable ! unat (drop_bit 4 v) # hextable ! unat (v AND 15) # EncodeToString a"
  by (simp add: EncodeToString_def)

lemma EncodeToString_inj: "EncodeToString a = EncodeToString b \<Longrightarrow> a = b"
proof (induction a arbitrary: b)
  case Nil
  then show ?case
    by (cases b) (simp_all add: EncodeToString_Nil EncodeToString_Cons)
next
  case (Cons v a)
  show ?case
  proof (cases b)
    case Nil
    with Cons.prems show ?thesis
      by (simp add: EncodeToString_Nil EncodeToString_Cons)
  next
    case (Cons w b')
    with Cons.prems have
      hi: "hextable ! unat (drop_bit 4 v) = hextable ! unat (drop_bit 4 w)" and
      lo: "hextable ! unat (v AND 15) = hextable ! unat (w AND 15)" and
      tl: "EncodeToString a = EncodeToString b'"
      by (simp_all only: EncodeToString_Cons list.inject)
    have "v = w" by (rule hex_byte_inj [OF hi lo])
    moreover have "a = b'" by (rule Cons.IH [OF tl])
    ultimately show ?thesis using Cons by simp
  qed
qed

lemma digest_neq:
  "length s \<noteq> 64 \<Longrightarrow> EncodeToString (Sum256 msg) \<noteq> s"
  "length s \<noteq> 64 \<Longrightarrow> s \<noteq> EncodeToString (Sum256 msg)"
  using digest_length by auto

section \<open>The claims about the hashers\<close>

text \<open>
  C5. For every readable file, \<^verbatim>\<open>hashFile\<close> returns the hex-encoded SHA-256 of the
  file's bytes and no error; the digest has 64 characters; the call does nothing but
  read that one file; and any readable file with the same bytes, in any file system,
  gets the same digest.
\<close>

theorem hashFile_digest_of_bytes:
  assumes "fs filename = Some cnt"
  shows "hashFile fs filename =
           ((EncodeToString (Sum256 cnt), None),
            [EvReadFile filename, EvDigest (EncodeToString (Sum256 cnt))])
         \<and> length (fst (fst (hashFile fs filename))) = 64
         \<and> (\<forall>fs' filename'. fs' filename' = Some cnt \<longrightarrow>
               fst (hashFile fs' filename') = fst (hashFile fs filename))"
  using assms by (simp add: hashFile_Some digest_length)

theorem hashFile_digest_of_bytes_witness:
  "exFiles ''snapshot.csv'' = Some [97, 44, 49, 48]
   \<and> hashFile exFiles ''snapshot.csv'' =
       ((exSnapshotHash, None), [EvReadFile ''snapshot.csv'', EvDigest exSnapshotHash])
   \<and> length (fst (fst (hashFile exFiles ''snapshot.csv''))) = 64"
proof -
  have h: "exFiles ''snapshot.csv'' = Some [97, 44, 49, 48]"
    by (simp add: exFiles_def)
  show ?thesis
    using h hashFile_digest_of_bytes [of exFiles "''snapshot.csv''" "[97, 44, 49, 48]"]
    by (simp add: exSnapshotHash_def digest_length)
qed

text \<open>
  C6. When the file of \<^verbatim>\<open>hashFile\<close> is unreadable, the result is the empty string and
  the read error, and no digest is computed. When the code file or the ABI file of
  \<^verbatim>\<open>hashCodeFiles\<close> is unreadable, the result is the empty string and the read error of
  the first unreadable file, and no digest is computed.
\<close>

theorem hashers_unreadable:
  "(fs filename = None \<longrightarrow>
      hashFile fs filename = (('''', Some (PathError filename)), [EvReadFile filename]))
   \<and> (fs code = None \<or> fs abi = None \<longrightarrow>
      fst (hashCodeFiles fs code abi)
        = ('''', Some (PathError (if fs code = None then code else abi)))
      \<and> (\<forall>d. EvDigest d \<notin> set (snd (hashCodeFiles fs code abi))))"
proof -
  have "fs code = None \<or> (\<exists>a. fs code = Some a)" by auto
  then show ?thesis
    by (auto simp: hashFile_None hashCodeFiles_code_None hashCodeFiles_abi_None)
qed

theorem hashers_unreadable_witness:
  "exFiles ''missing.csv'' = None
   \<and> hashFile exFiles ''missing.csv''
       = (('''', Some (PathError ''missing.csv'')), [EvReadFile ''missing.csv''])
   \<and> exFiles ''missing.abi'' = None
   \<and> fst (hashCodeFiles exFiles ''eosio.bios.wasm'' ''missing.abi'')
       = ('''', Some (PathError ''missing.abi''))
   \<and> (\<forall>d. EvDigest d \<notin> set (snd (hashCodeFiles exFiles ''eosio.bios.wasm'' ''missing.abi'')))"
proof -
  have h1: "exFiles ''missing.csv'' = None" and h2: "exFiles ''missing.abi'' = None"
    and h3: "exFiles ''eosio.bios.wasm'' \<noteq> None"
    by (simp_all add: exFiles_def)
  show ?thesis
    using h1 h2 h3
      hashers_unreadable [of exFiles "''missing.csv''" "''eosio.bios.wasm''" "''missing.abi''"]
    by simp
qed

text \<open>
  C4 as stated fails: the files \<open>A\<close> and \<open>B\<close> below differ, and the combined hash of
  (A, B) is the combined hash of (B, A), as both hash the bytes \<^verbatim>\<open>a:a:a\<close>.
\<close>

theorem hashCodeFiles_swap_counterexample:
  "exSwapFiles ''A'' \<noteq> exSwapFiles ''B''
   \<and> fst (hashCodeFiles exSwapFiles ''A'' ''B'') = fst (hashCodeFiles exSwapFiles ''B'' ''A'')
   \<and> snd (fst (hashCodeFiles exSwapFiles ''A'' ''B'')) = None"
proof -
  have a: "exSwapFiles ''A'' = Some [97]" and b: "exSwapFiles ''B'' = Some [97, 58, 97]"
    by (simp_all add: exSwapFiles_def)
  show ?thesis
    by (simp add: a b hashCodeFiles_Some [OF a b] hashCodeFiles_Some [OF b a])
qed

text \<open>
  C4, amended. For readable files, the combined hash is the hex-encoded SHA-256 of the
  first file's bytes, then the one byte \<^verbatim>\<open>:\<close>, then the second file's bytes, in the
  caller's order. The hashed bytes always differ from the plain concatenation of the
  two files. The digest of the swapped order, and the digest \<^verbatim>\<open>hashFile\<close> gives for
  the plain concatenation, equal the combined hash exactly when SHA-256 gives the same
  value on the respective hashed bytes; for the swapped order this is so whenever
  the hashed bytes are the same.
\<close>

theorem hashCodeFiles_delimited:
  assumes "fs code = Some a" and "fs abi = Some b" and "fs both = Some (a @ b)"
  shows "fst (hashCodeFiles fs code abi) = (EncodeToString (Sum256 (a @ [58] @ b)), None)
         \<and> a @ [58] @ b \<noteq> a @ b
         \<and> (fst (hashCodeFiles fs abi code) = fst (hashCodeFiles fs code abi)
              \<longleftrightarrow> Sum256 (b @ [58] @ a) = Sum256 (a @ [58] @ b))
         \<and> (fst (hashFile fs both) = fst (hashCodeFiles fs code abi)
              \<longleftrightarrow> Sum256 (a @ b) = Sum256 (a @ [58] @ b))
         \<and> (b @ [58] @ a = a @ [58] @ b
              \<longrightarrow> fst (hashCodeFiles fs abi code) = fst (hashCodeFiles fs code abi))"
  using assms
  by (auto simp: hashCodeFiles_Some hashFile_Some dest: EncodeToString_inj)

theorem hashCodeFiles_delimited_witness:
  "exSwapFiles ''A'' = Some [97] \<and> exSwapFiles ''B'' = Some [97, 58, 97]
   \<and> exSwapFiles ''AB'' = Some ([97] @ [97, 58, 97])
   \<and> fst (hashCodeFiles exSwapFiles ''A'' ''B'')
       = (EncodeToString (Sum256 [97, 58, 97, 58, 97]), None)
   \<and> fst (hashCodeFiles exSwapFiles ''B'' ''A'') = fst (hashCodeFiles exSwapFiles ''A'' ''B'')"
proof -
  have a: "exSwapFiles ''A'' = Some [97]" and b: "exSwapFiles ''B'' = Some [97, 58, 97]"
    and c: "exSwapFiles ''AB'' = Some ([97] @ [97, 58, 97])"
    by (simp_all add: exSwapFiles_def)
  show ?thesis
    using a b c
      hashCodeFiles_delimited [of exSwapFiles "''A''" "[97]" "''B''" "[97, 58, 97]" "''AB''"]
    by simp
qed

section \<open>Facts about the loop over the contracts\<close>

lemma hashCodeFiles_cases [case_names code_unreadable abi_unreadable hashed]:
  obtains
    "fs code = None"
      "hashCodeFiles fs code abi = (('''', Some (PathError code)), [EvReadFile code])"
  | a where "fs code = Some a" "fs abi = None"
      "hashCodeFiles fs code abi
         = (('''', Some (PathError abi)), [EvReadFile code, EvReadFile abi])"
  | a b where "fs code = Some a" "fs abi = Some b"
      "hashCodeFiles fs code abi =
         ((EncodeToString (Sum256 (a @ [58] @ b)), None),
          [EvReadFile code, EvReadFile abi, EvDigest (EncodeToString (Sum256 (a @ [58] @ b)))])"
proof (cases "fs code")
  case None
  then show ?thesis using that(1) hashCodeFiles_code_None by blast
next
  case (Some a)
  show ?thesis
  proof (cases "fs abi")
    case None
    with Some show ?thesis using that(2) hashCodeFiles_abi_None by blast
  next
    case (Some b)
    with \<open>fs code = Some a\<close> show ?thesis using that(3) hashCodeFiles_Some by blast
  qed
qed

text \<open>What one pass of the loop body does, by the four ways it can go.\<close>

lemma rangeContracts_Cons_cases [case_names skip error mismatch match]:
  obtains
    "m name = None"
      "rangeContracts fs m (name # rest) = rangeContracts fs m rest"
  | cmp p where "m name = Some cmp"
      "fst (hashCodeFiles fs (CodePath (location cmp)) (ABIPath (location cmp)))
         = ('''', Some (PathError p))"
      "\<forall>e \<in> set (snd (rangeContracts fs m (name # rest))). \<exists>q. e = EvReadFile q"
      "fst (rangeContracts fs m (name # rest)) = Some (HashingError name (PathError p))"
  | cmp d where "m name = Some cmp"
      "fst (hashCodeFiles fs (CodePath (location cmp)) (ABIPath (location cmp))) = (d, None)"
      "d \<noteq> hash cmp"
      "rangeContracts fs m (name # rest) =
         (Some (CodeHashMismatch name),
          [EvReadFile (CodePath (location cmp)), EvReadFile (ABIPath (location cmp)),
           EvDigest d, EvPrintCodeHash (CodePath (location cmp)) (ABIPath (location cmp)) d])"
  | cmp where "m name = Some cmp"
      "fst (hashCodeFiles fs (CodePath (location cmp)) (ABIPath (location cmp)))
         = (hash cmp, None)"
      "rangeContracts fs m (name # rest) =
         (fst (rangeContracts fs m rest),
          [EvReadFile (CodePath (location cmp)), EvReadFile (ABIPath (location cmp)),
           EvDigest (hash cmp),
           EvPrintCodeHash (CodePath (location cmp)) (ABIPath (location cmp)) (hash cmp)]
          @ snd (rangeContracts fs m rest))"
proof (cases "m name")
  case None
  then show ?thesis using that(1) by simp
next
  case (Some cmp)
  show ?thesis
  proof (cases rule: hashCodeFiles_cases
      [where fs = fs and code = "CodePath (location cmp)" and abi = "ABIPath (location cmp)"])
    case code_unreadable
    with Some show ?thesis using that(2) [of cmp "CodePath (location cmp)"] by simp
  next
    case (abi_unreadable a)
    with Some show ?thesis using that(2) [of cmp "ABIPath (location cmp)"] by simp
  next
    case (hashed a b)
    show ?thesis
    proof (cases "EncodeToString (Sum256 (a @ [58] @ b)) = hash cmp")
      case True
      with Some hashed(3) show ?thesis
        using that(4) [of cmp] by (simp add: split_def)
    next
      case False
      with Some hashed(3) show ?thesis
        using that(3) [of cmp "EncodeToString (Sum256 (a @ [58] @ b))"] by simp
    qed
  qed
qed

lemma audited_Cons:
  "audited (e # t) = (case e of EvDigest d \<Rightarrow> (case t of [] \<Rightarrow> False | e' # t' \<Rightarrow>
                        printedHash e' = Some d \<and> audited t) | _ \<Rightarrow> audited t)"
  by (cases t; cases e) (simp_all add: surfacedBy_def)

lemma audited_append: "audited a \<Longrightarrow> audited b \<Longrightarrow> audited (a @ b)"
proof (induction a rule: audited.induct)
  case 1
  then show ?case by simp
next
  case (2 e)
  then show ?case by (cases e) (simp_all add: audited_Cons)
next
  case (3 e e' t)
  then show ?case by simp
qed

lemma isLocal_simps:
  "isLocal (EvReadFile p)" "isLocal (EvDigest d)"
  "isLocal (EvPrintSnapshotHash p d)" "isLocal (EvPrintCodeHash c a d)"
  by (simp_all add: isLocal_def)

lemma isLocal_not_network: "isLocal e \<Longrightarrow> \<not> isNetworkCall e \<and> e \<noteq> EvShuffleProducers"
  by (cases e) (simp_all add: isLocal_def isNetworkCall_def)

lemma rangeContracts_local: "list_all isLocal (snd (rangeContracts fs m order))"
proof (induction order)
  case Nil
  then show ?case by simp
next
  case (Cons name rest)
  show ?case
  proof (cases rule: rangeContracts_Cons_cases [where fs = fs and m = m and name = name and rest = rest])
    case skip
    with Cons show ?thesis by simp
  next
    case (error cmp p)
    then show ?thesis by (auto simp: list_all_iff isLocal_simps)
  next
    case (mismatch cmp d)
    then show ?thesis by (simp add: isLocal_simps)
  next
    case (match cmp)
    with Cons show ?thesis by (simp add: isLocal_simps)
  qed
qed

lemma audited_reads: "\<forall>e \<in> set t. \<exists>q. e = EvReadFile q \<Longrightarrow> audited t"
  by (induction t) (auto simp: audited_Cons)

lemma printedHashes_reads: "\<forall>e \<in> set t. \<exists>q. e = EvReadFile q \<Longrightarrow> printedHashes t = []"
  by (induction t) (auto simp: printedHashes_def printedHash_def)

lemma rangeContracts_audited: "audited (snd (rangeContracts fs m order))"
proof (induction order)
  case Nil
  then show ?case by simp
next
  case (Cons name rest)
  show ?case
  proof (cases rule: rangeContracts_Cons_cases [where fs = fs and m = m and name = name and rest = rest])
    case skip
    with Cons show ?thesis by simp
  next
    case (error cmp p)
    then show ?thesis by (simp add: audited_reads)
  next
    case (mismatch cmp d)
    then show ?thesis by (simp add: audited_Cons printedHash_def)
  next
    case (match cmp)
    with Cons show ?thesis by (simp add: audited_Cons printedHash_def)
  qed
qed

text \<open>A contract of the order that does not match makes the loop return an error.\<close>

lemma rangeContracts_mismatch_fails:
  assumes "name \<in> set order" and "m name = Some cmp" and "\<not> contractMatches fs cmp"
  shows "fst (rangeContracts fs m order) \<noteq> None"
  using assms(1)
proof (induction order)
  case Nil
  then show ?case by simp
next
  case (Cons n rest)
  show ?case
  proof (cases rule: rangeContracts_Cons_cases [where fs = fs and m = m and name = n and rest = rest])
    case skip
    with Cons assms(2) show ?thesis by auto
  next
    case (error c p)
    then show ?thesis by simp
  next
    case (mismatch c d)
    then show ?thesis by simp
  next
    case (match c)
    with Cons assms(2,3) show ?thesis by (auto simp: contractMatches_def)
  qed
qed

text \<open>The error of the loop names one contract of the order, and no other.\<close>

lemma rangeContracts_names_one:
  assumes "fst (rangeContracts fs m order) = Some err"
  shows "\<exists>name \<in> set order. namedContracts err = [name]"
  using assms
proof (induction order)
  case Nil
  then show ?case by simp
next
  case (Cons n rest)
  show ?case
  proof (cases rule: rangeContracts_Cons_cases [where fs = fs and m = m and name = n and rest = rest])
    case skip
    with Cons show ?thesis by auto
  next
    case (error c p)
    with Cons.prems show ?thesis by auto
  next
    case (mismatch c d)
    with Cons.prems show ?thesis by auto
  next
    case (match c)
    with Cons show ?thesis by auto
  qed
qed

text \<open>When the loop runs to its end, it has printed the declared hash of each key visited.\<close>

lemma rangeContracts_success:
  assumes "fst (rangeContracts fs m order) = None"
  shows "printedHashes (snd (rangeContracts fs m order))
           = map (\<lambda>n. hash (the (m n))) (filter (\<lambda>n. m n \<noteq> None) order)
         \<and> (\<forall>n \<in> set order. \<forall>cmp. m n = Some cmp \<longrightarrow> contractMatches fs cmp)"
  using assms
proof (induction order)
  case Nil
  then show ?case by (simp add: printedHashes_def)
next
  case (Cons n rest)
  show ?case
  proof (cases rule: rangeContracts_Cons_cases [where fs = fs and m = m and name = n and rest = rest])
    case skip
    with Cons show ?thesis by auto
  next
    case (error c p)
    with Cons.prems show ?thesis by simp
  next
    case (mismatch c d)
    with Cons.prems show ?thesis by simp
  next
    case (match c)
    with Cons show ?thesis
      by (auto simp: printedHashes_def printedHash_def contractMatches_def)
  qed
qed

section \<open>Facts about \<^verbatim>\<open>loadLaunchFile\<close>\<close>

text \<open>The result of \<^verbatim>\<open>loadLaunchFile\<close> on each of its paths.\<close>

lemma loadLaunchFile_unreadable:
  assumes "fs filename = None"
  shows "loadLaunchFile um order fs filename config
           = (Return (None, Some (PathError filename)), [EvReadFile filename])"
  using assms by (simp add: loadLaunchFile_def ReadFile_None)

lemma loadLaunchFile_unmarshal_error:
  assumes "fs filename = Some cnt" and "um cnt = (out, Some err)"
  shows "loadLaunchFile um order fs filename config
           = (Return (None, Some err), [EvReadFile filename])"
  using assms by (simp add: loadLaunchFile_def ReadFile_Some split: option.splits)

lemma loadLaunchFile_nil_out:
  assumes "fs filename = Some cnt" and "um cnt = (None, None)"
  shows "loadLaunchFile um order fs filename config = (Panic, [EvReadFile filename])"
  using assms by (simp add: loadLaunchFile_def ReadFile_Some)

lemma loadLaunchFile_height_zero:
  assumes "fs filename = Some cnt" and "um cnt = (Some out, None)"
    and "LaunchBitcoinBlockHeight out = 0"
  shows "loadLaunchFile um order fs filename config
           = (Return (None, Some HeightUnspecified), [EvReadFile filename])"
  using assms by (simp add: loadLaunchFile_def ReadFile_Some)

lemma loadLaunchFile_nil_config:
  assumes "fs filename = Some cnt" and "um cnt = (Some out, None)"
    and "LaunchBitcoinBlockHeight out \<noteq> 0"
  shows "loadLaunchFile um order fs filename None = (Panic, [EvReadFile filename])"
  using assms by (simp add: loadLaunchFile_def ReadFile_Some)

lemma loadLaunchFile_snapshot_unreadable:
  assumes "fs filename = Some cnt" and "um cnt = (Some out, None)"
    and "LaunchBitcoinBlockHeight out \<noteq> 0"
    and "fs (SnapshotPath (OpeningBalances cfg)) = None"
  shows "loadLaunchFile um order fs filename (Some cfg)
           = (Return (None, Some (PathError (SnapshotPath (OpeningBalances cfg)))),
              [EvReadFile filename, EvReadFile (SnapshotPath (OpeningBalances cfg))])"
  using assms by (simp add: loadLaunchFile_def ReadFile_Some hashFile_None)

lemma loadLaunchFile_snapshot_mismatch:
  assumes "fs filename = Some cnt" and "um cnt = (Some out, None)"
    and "LaunchBitcoinBlockHeight out \<noteq> 0"
    and "fs (SnapshotPath (OpeningBalances cfg)) = Some s"
    and "EncodeToString (Sum256 s) \<noteq> OpeningBalancesSnapshotHash out"
  shows "loadLaunchFile um order fs filename (Some cfg)
           = (Return (None, Some SnapshotMismatch),
              [EvReadFile filename, EvReadFile (SnapshotPath (OpeningBalances cfg)),
               EvDigest (EncodeToString (Sum256 s)),
               EvPrintSnapshotHash (SnapshotPath (OpeningBalances cfg))
                 (EncodeToString (Sum256 s))])"
  using assms by (simp add: loadLaunchFile_def ReadFile_Some hashFile_Some)

lemma loadLaunchFile_contracts:
  assumes "fs filename = Some cnt" and "um cnt = (Some out, None)"
    and "LaunchBitcoinBlockHeight out \<noteq> 0"
    and "fs (SnapshotPath (OpeningBalances cfg)) = Some s"
    and "EncodeToString (Sum256 s) = OpeningBalancesSnapshotHash out"
  shows "loadLaunchFile um order fs filename (Some cfg)
           = ((case fst (rangeContracts fs (contractMap cfg out) order) of
                 Some err \<Rightarrow> Return (None, Some err)
               | None \<Rightarrow> Return (Some out, None)),
              [EvReadFile filename, EvReadFile (SnapshotPath (OpeningBalances cfg)),
               EvDigest (OpeningBalancesSnapshotHash out),
               EvPrintSnapshotHash (SnapshotPath (OpeningBalances cfg))
                 (OpeningBalancesSnapshotHash out)]
              @ snd (rangeContracts fs (contractMap cfg out) order))"
proof -
  obtain r t3 where rc: "rangeContracts fs (contractMap cfg out) order = (r, t3)"
    by (cases "rangeContracts fs (contractMap cfg out) order")
  show ?thesis
    using assms by (cases r) (simp_all add: loadLaunchFile_def ReadFile_Some hashFile_Some rc)
qed

text \<open>The paths of \<^verbatim>\<open>loadLaunchFile\<close>, by what its inputs are.\<close>

lemma loadLaunchFile_cases
  [case_names unreadable unmarshal_error nil_out height_zero nil_config
     snapshot_unreadable snapshot_mismatch contracts]:
  obtains
    "fs filename = None"
  | cnt out err where "fs filename = Some cnt" "um cnt = (out, Some err)"
  | cnt where "fs filename = Some cnt" "um cnt = (None, None)"
  | cnt out where "fs filename = Some cnt" "um cnt = (Some out, None)"
      "LaunchBitcoinBlockHeight out = 0"
  | cnt out where "fs filename = Some cnt" "um cnt = (Some out, None)"
      "LaunchBitcoinBlockHeight out \<noteq> 0" "config = None"
  | cnt out cfg where "fs filename = Some cnt" "um cnt = (Some out, None)"
      "LaunchBitcoinBlockHeight out \<noteq> 0" "config = Some cfg"
      "fs (SnapshotPath (OpeningBalances cfg)) = None"
  | cnt out cfg s where "fs filename = Some cnt" "um cnt = (Some out, None)"
      "LaunchBitcoinBlockHeight out \<noteq> 0" "config = Some cfg"
      "fs (SnapshotPath (OpeningBalances cfg)) = Some s"
      "EncodeToString (Sum256 s) \<noteq> OpeningBalancesSnapshotHash out"
  | cnt out cfg s where "fs filename = Some cnt" "um cnt = (Some out, None)"
      "LaunchBitcoinBlockHeight out \<noteq> 0" "config = Some cfg"
      "fs (SnapshotPath (OpeningBalances cfg)) = Some s"
      "EncodeToString (Sum256 s) = OpeningBalancesSnapshotHash out"
proof (cases "fs filename")
  case None
  then show ?thesis by (rule that(1))
next
  case (Some cnt)
  note cnt = this
  obtain o' e' where um: "um cnt = (o', e')"
    by (cases "um cnt")
  show ?thesis
  proof (cases e')
    case (Some err)
    with cnt um show ?thesis using that(2) by blast
  next
    case None
    note e' = this
    show ?thesis
    proof (cases o')
      case None
      with cnt um e' show ?thesis using that(3) by blast
    next
      case (Some out)
      note out = this
      show ?thesis
      proof (cases "LaunchBitcoinBlockHeight out = 0")
        case True
        with cnt um e' out show ?thesis using that(4) by blast
      next
        case False
        note h = this
        show ?thesis
        proof (cases config)
          case None
          with cnt um e' out h show ?thesis using that(5) by blast
        next
          case (Some cfg)
          note cfg = this
          show ?thesis
          proof (cases "fs (SnapshotPath (OpeningBalances cfg))")
            case None
            with cnt um e' out h cfg show ?thesis using that(6) by blast
          next
            case (Some s)
            show ?thesis
            proof (cases "EncodeToString (Sum256 s) = OpeningBalancesSnapshotHash out")
              case True
              with cnt um e' out h cfg Some show ?thesis using that(8) by blast
            next
              case False
              with cnt um e' out h cfg Some show ?thesis using that(7) by blast
            qed
          qed
        qed
      qed
    qed
  qed
qed

lemma loadLaunchFile_local: "list_all isLocal (snd (loadLaunchFile um order fs filename config))"
proof (cases rule: loadLaunchFile_cases
    [where fs = fs and filename = filename and um = um and config = config])
  case unreadable
  then show ?thesis by (simp add: loadLaunchFile_unreadable isLocal_simps)
next
  case (unmarshal_error cnt out err)
  then show ?thesis by (simp add: loadLaunchFile_unmarshal_error isLocal_simps)
next
  case (nil_out cnt)
  then show ?thesis by (simp add: loadLaunchFile_nil_out isLocal_simps)
next
  case (height_zero cnt out)
  then show ?thesis by (simp add: loadLaunchFile_height_zero isLocal_simps)
next
  case (nil_config cnt out)
  then show ?thesis by (simp add: loadLaunchFile_nil_config isLocal_simps)
next
  case (snapshot_unreadable cnt out cfg)
  then show ?thesis by (simp add: loadLaunchFile_snapshot_unreadable isLocal_simps)
next
  case (snapshot_mismatch cnt out cfg s)
  then show ?thesis by (simp add: loadLaunchFile_snapshot_mismatch isLocal_simps)
next
  case (contracts cnt out cfg s)
  then show ?thesis
    by (simp add: loadLaunchFile_contracts isLocal_simps rangeContracts_local)
qed

lemma loadLaunchFile_audited: "audited (snd (loadLaunchFile um order fs filename config))"
proof (cases rule: loadLaunchFile_cases
    [where fs = fs and filename = filename and um = um and config = config])
  case unreadable
  then show ?thesis by (simp add: loadLaunchFile_unreadable)
next
  case (unmarshal_error cnt out err)
  then show ?thesis by (simp add: loadLaunchFile_unmarshal_error)
next
  case (nil_out cnt)
  then show ?thesis by (simp add: loadLaunchFile_nil_out)
next
  case (height_zero cnt out)
  then show ?thesis by (simp add: loadLaunchFile_height_zero)
next
  case (nil_config cnt out)
  then show ?thesis by (simp add: loadLaunchFile_nil_config)
next
  case (snapshot_unreadable cnt out cfg)
  then show ?thesis by (simp add: loadLaunchFile_snapshot_unreadable surfacedBy_def)
next
  case (snapshot_mismatch cnt out cfg s)
  then show ?thesis
    by (simp add: loadLaunchFile_snapshot_mismatch audited_Cons printedHash_def)
next
  case (contracts cnt out cfg s)
  then show ?thesis
    by (simp add: loadLaunchFile_contracts audited_Cons printedHash_def rangeContracts_audited)
qed

text \<open>When every contract the loop visits matches, the loop runs to its end.\<close>

lemma rangeContracts_all_match:
  assumes "\<forall>n \<in> set order. \<forall>cmp. m n = Some cmp \<longrightarrow> contractMatches fs cmp"
  shows "fst (rangeContracts fs m order) = None"
  using assms
proof (induction order)
  case Nil
  then show ?case by simp
next
  case (Cons n rest)
  show ?case
  proof (cases rule: rangeContracts_Cons_cases [where fs = fs and m = m and name = n and rest = rest])
    case skip
    with Cons show ?thesis by simp
  next
    case (error c p)
    with Cons.prems show ?thesis by (simp add: contractMatches_def)
  next
    case (mismatch c d)
    with Cons.prems show ?thesis by (simp add: contractMatches_def)
  next
    case (match c)
    with Cons show ?thesis by simp
  qed
qed

lemma snapshotMatches_Some:
  "fs (SnapshotPath (OpeningBalances cfg)) = Some s \<Longrightarrow>
   snapshotMatches fs cfg out \<longleftrightarrow> EncodeToString (Sum256 s) = OpeningBalancesSnapshotHash out"
  by (simp add: snapshotMatches_def hashFile_Some)

lemma snapshotMatches_None:
  "fs (SnapshotPath (OpeningBalances cfg)) = None \<Longrightarrow> \<not> snapshotMatches fs cfg out"
  by (simp add: snapshotMatches_def hashFile_None)

lemma contractMap_simps:
  "contractMap cfg out ''bios'' = Some (newCC (locBIOS (Contracts cfg)) (BIOS (ContractHashes out)))"
  "contractMap cfg out ''system''
     = Some (newCC (locSystem (Contracts cfg)) (System (ContractHashes out)))"
  "contractMap cfg out ''msig'' = Some (newCC (locMsig (Contracts cfg)) (Msig (ContractHashes out)))"
  "contractMap cfg out ''token''
     = Some (newCC (locToken (Contracts cfg)) (Token (ContractHashes out)))"
  by (simp_all add: contractMap_def)

lemma mismatched_nonempty:
  assumes "mismatched fs cfg out \<noteq> []"
  obtains name cmp where "name \<in> set contractNames" "contractMap cfg out name = Some cmp"
    "\<not> contractMatches fs cmp"
proof -
  from assms obtain name where n: "name \<in> set contractNames"
    and p: "case contractMap cfg out name of None \<Rightarrow> False | Some cmp \<Rightarrow> \<not> contractMatches fs cmp"
    unfolding mismatched_def filter_empty_conv contractMismatch_def by blast
  from p obtain cmp where "contractMap cfg out name = Some cmp" "\<not> contractMatches fs cmp"
    by (cases "contractMap cfg out name") simp_all
  with n show ?thesis by (rule that)
qed

lemma mismatched_empty:
  assumes "mismatched fs cfg out = []" and "n \<in> set contractNames"
    and "contractMap cfg out n = Some cmp"
  shows "contractMatches fs cmp"
proof (rule ccontr)
  assume "\<not> contractMatches fs cmp"
  with assms(2,3) have "n \<in> set (mismatched fs cfg out)"
    by (simp add: mismatched_def contractMismatch_def)
  with assms(1) show False by simp
qed

text \<open>With a manifest that unmarshals and a height that is set, loading fails exactly
  when some artifact does not match.\<close>

lemma loadLaunchFile_fails_iff:
  assumes "fs filename = Some cnt" and "um cnt = (Some out, None)"
    and "LaunchBitcoinBlockHeight out \<noteq> 0" and "rangeOrder order"
  shows "fst (loadLaunchFile um order fs filename (Some cfg)) = Return (Some out, None)
           \<longleftrightarrow> allMatch fs cfg out"
    and "\<not> allMatch fs cfg out \<Longrightarrow>
           \<exists>err. fst (loadLaunchFile um order fs filename (Some cfg)) = Return (None, Some err)"
proof -
  let ?r = "fst (loadLaunchFile um order fs filename (Some cfg))"
  have "(?r = Return (Some out, None) \<longleftrightarrow> allMatch fs cfg out)
        \<and> (\<not> allMatch fs cfg out \<longrightarrow> (\<exists>err. ?r = Return (None, Some err)))"
  proof (cases "fs (SnapshotPath (OpeningBalances cfg))")
    case None
    with assms show ?thesis
      by (simp add: loadLaunchFile_snapshot_unreadable allMatch_def snapshotMatches_None)
  next
    case (Some s)
    show ?thesis
    proof (cases "EncodeToString (Sum256 s) = OpeningBalancesSnapshotHash out")
      case False
      with assms Some show ?thesis
        by (simp add: loadLaunchFile_snapshot_mismatch allMatch_def snapshotMatches_Some)
    next
      case True
      note eq = loadLaunchFile_contracts
        [where fs = fs and um = um and order = order, OF assms(1-3) Some True]
      have sm: "snapshotMatches fs cfg out"
        using Some True by (simp add: snapshotMatches_Some)
      show ?thesis
      proof (cases "mismatched fs cfg out = []")
        case True
        have "\<forall>n \<in> set order. \<forall>cmp. contractMap cfg out n = Some cmp \<longrightarrow> contractMatches fs cmp"
          using mismatched_empty [OF True] assms(4) by (auto simp: rangeOrder_def)
        then have "fst (rangeContracts fs (contractMap cfg out) order) = None"
          by (rule rangeContracts_all_match)
        with sm True show ?thesis by (simp add: eq allMatch_def)
      next
        case False
        then obtain name cmp where "name \<in> set contractNames"
          "contractMap cfg out name = Some cmp" "\<not> contractMatches fs cmp"
          by (rule mismatched_nonempty)
        moreover from this(1) assms(4) have "name \<in> set order"
          by (simp add: rangeOrder_def)
        ultimately have "fst (rangeContracts fs (contractMap cfg out) order) \<noteq> None"
          using rangeContracts_mismatch_fails by blast
        then obtain err where "fst (rangeContracts fs (contractMap cfg out) order) = Some err"
          by auto
        with False show ?thesis by (simp add: eq allMatch_def)
      qed
    qed
  qed
  then show "?r = Return (Some out, None) \<longleftrightarrow> allMatch fs cfg out"
    and "\<not> allMatch fs cfg out \<Longrightarrow> \<exists>err. ?r = Return (None, Some err)"
    by blast+
qed

section \<open>The launch of the example\<close>

lemma exFiles_simps:
  "exFiles ''launch.yaml'' = Some [108, 97, 117, 110, 99, 104]"
  "exFiles ''snapshot.csv'' = Some [97, 44, 49, 48]"
  "exFiles ''eosio.bios.wasm'' = Some [0, 97, 115, 109, 1]"
  "exFiles ''eosio.bios.abi'' = Some [123, 125]"
  "exFiles ''eosio.system.wasm'' = Some [0, 97, 115, 109, 2]"
  "exFiles ''eosio.system.abi'' = Some [123, 125]"
  "exFiles ''eosio.msig.wasm'' = Some [0, 97, 115, 109, 3]"
  "exFiles ''eosio.msig.abi'' = Some [123, 125]"
  "exFiles ''eosio.token.wasm'' = Some [0, 97, 115, 109, 4]"
  "exFiles ''eosio.token.abi'' = Some [123, 125]"
  by (simp_all add: exFiles_def)

lemma exConfig_simps:
  "SnapshotPath (OpeningBalances exConfig) = ''snapshot.csv''"
  "locBIOS (Contracts exConfig) = \<lparr>CodePath = ''eosio.bios.wasm'', ABIPath = ''eosio.bios.abi''\<rparr>"
  "locSystem (Contracts exConfig)
     = \<lparr>CodePath = ''eosio.system.wasm'', ABIPath = ''eosio.system.abi''\<rparr>"
  "locMsig (Contracts exConfig) = \<lparr>CodePath = ''eosio.msig.wasm'', ABIPath = ''eosio.msig.abi''\<rparr>"
  "locToken (Contracts exConfig)
     = \<lparr>CodePath = ''eosio.token.wasm'', ABIPath = ''eosio.token.abi''\<rparr>"
  "apiAddressURL (Producer exConfig) = ''http://localhost:8888''"
  "walletAddressURL (Producer exConfig) = ''http://localhost:6666''"
  by (simp_all add: exConfig_def)

lemma exHashes:
  "hashFile exFiles ''snapshot.csv''
     = ((exSnapshotHash, None), [EvReadFile ''snapshot.csv'', EvDigest exSnapshotHash])"
  "hashCodeFiles exFiles ''eosio.bios.wasm'' ''eosio.bios.abi''
     = ((exCodeHash 1, None),
        [EvReadFile ''eosio.bios.wasm'', EvReadFile ''eosio.bios.abi'', EvDigest (exCodeHash 1)])"
  "hashCodeFiles exFiles ''eosio.system.wasm'' ''eosio.system.abi''
     = ((exCodeHash 2, None),
        [EvReadFile ''eosio.system.wasm'', EvReadFile ''eosio.system.abi'',
         EvDigest (exCodeHash 2)])"
  "hashCodeFiles exFiles ''eosio.msig.wasm'' ''eosio.msig.abi''
     = ((exCodeHash 3, None),
        [EvReadFile ''eosio.msig.wasm'', EvReadFile ''eosio.msig.abi'', EvDigest (exCodeHash 3)])"
  "hashCodeFiles exFiles ''eosio.token.wasm'' ''eosio.token.abi''
     = ((exCodeHash 4, None),
        [EvReadFile ''eosio.token.wasm'', EvReadFile ''eosio.token.abi'',
         EvDigest (exCodeHash 4)])"
  by (simp_all add: hashFile_Some [where fs = exFiles, OF exFiles_simps(2)]
      hashCodeFiles_Some [where fs = exFiles, OF exFiles_simps(3) exFiles_simps(4)]
      hashCodeFiles_Some [where fs = exFiles, OF exFiles_simps(5) exFiles_simps(6)]
      hashCodeFiles_Some [where fs = exFiles, OF exFiles_simps(7) exFiles_simps(8)]
      hashCodeFiles_Some [where fs = exFiles, OF exFiles_simps(9) exFiles_simps(10)]
      exSnapshotHash_def exCodeHash_def)

lemma exHash_length: "length exSnapshotHash = 64" "length (exCodeHash k) = 64"
  by (simp_all add: exSnapshotHash_def exCodeHash_def digest_length)

lemma exLaunch_simps:
  "LaunchBitcoinBlockHeight (exLaunch ps) \<noteq> 0"
  "OpeningBalancesSnapshotHash (exLaunch ps) = exSnapshotHash"
  "BIOS (ContractHashes (exLaunch ps)) = exCodeHash 1"
  "System (ContractHashes (exLaunch ps)) = exCodeHash 2"
  "Msig (ContractHashes (exLaunch ps)) = exCodeHash 3"
  "Token (ContractHashes (exLaunch ps)) = exCodeHash 4"
  "Producers (exLaunch ps) = ps"
  by (simp_all add: exLaunch_def)

lemma rangeOrder_examples:
  "rangeOrder contractNames"
  "rangeOrder [''bios'', ''system'', ''msig'', ''token'']"
  "rangeOrder [''token'', ''msig'', ''system'', ''bios'']"
  by (auto simp: rangeOrder_def contractNames_def)

lemma exLaunch_allMatch: "allMatch exFiles exConfig (exLaunch ps)"
  by (simp add: allMatch_def snapshotMatches_def mismatched_def contractMismatch_def
      contractNames_def contractMap_simps contractMatches_def newCC_def exConfig_simps exHashes exLaunch_simps)

lemma exLaunch_loads:
  "rangeOrder order \<Longrightarrow>
   fst (loadLaunchFile (\<lambda>cnt. (Some (exLaunch ps), None)) order exFiles ''launch.yaml''
          (Some exConfig)) = Return (Some (exLaunch ps), None)"
  using loadLaunchFile_fails_iff(1)
    [of exFiles "''launch.yaml''" _ "\<lambda>cnt. (Some (exLaunch ps), None)" "exLaunch ps" order exConfig]
  by (simp add: exFiles_simps exLaunch_simps exLaunch_allMatch)

section \<open>Facts about \<^verbatim>\<open>main\<close>\<close>

lemma main_launch_error:
  assumes "localConfig \<noteq> []" and "launchData \<noteq> []"
    and "LoadLocalConfig e localConfig = (config, None)"
    and "fst (loadLaunchFile (yamlUnmarshal e) (mapOrder e) fs launchData config)
           = Return (launch, Some err)"
  shows "main e fs localConfig launchData
           = (Fatal ''launch data error:'' (Some err),
              snd (loadLaunchFile (yamlUnmarshal e) (mapOrder e) fs launchData config))"
proof -
  obtain r t where lf: "loadLaunchFile (yamlUnmarshal e) (mapOrder e) fs launchData config = (r, t)"
    by (cases "loadLaunchFile (yamlUnmarshal e) (mapOrder e) fs launchData config")
  with assms(4) have "r = Return (launch, Some err)" by simp
  with assms(1-3) lf show ?thesis
    by (cases launch) (simp_all add: main_def)
qed

lemma main_success:
  assumes "localConfig \<noteq> []" and "launchData \<noteq> []"
    and "LoadLocalConfig e localConfig = (Some cfg, None)"
    and "fst (loadLaunchFile (yamlUnmarshal e) (mapOrder e) fs launchData (Some cfg))
           = Return (Some launch, None)"
    and "WalletPublicKeys e = None" and "NewSnapshot e (SnapshotPath (OpeningBalances cfg)) = None"
    and "ShuffleProducers e = None" and "Run e = None"
  shows "main e fs localConfig launchData
           = (Done,
              snd (loadLaunchFile (yamlUnmarshal e) (mapOrder e) fs launchData (Some cfg))
              @ [EvNew (apiAddressURL (Producer cfg)), EvNew (walletAddressURL (Producer cfg)),
                 EvNewWalletSigner, EvSetSigner, EvWalletPublicKeys,
                 EvNewSnapshot (SnapshotPath (OpeningBalances cfg)),
                 EvNewBIOS, EvShuffleProducers, EvRun, EvPrintDone])"
proof -
  obtain r t where lf:
    "loadLaunchFile (yamlUnmarshal e) (mapOrder e) fs launchData (Some cfg) = (r, t)"
    by (cases "loadLaunchFile (yamlUnmarshal e) (mapOrder e) fs launchData (Some cfg)")
  with assms(4) have "r = Return (Some launch, None)" by simp
  with assms(1-3,5-8) lf show ?thesis
    by (simp add: main_def)
qed

lemma printedHashes_append: "printedHashes (a @ b) = printedHashes a @ printedHashes b"
  by (simp add: printedHashes_def map_filter_def)

lemma ex_neq_deadbeef:
  "exSnapshotHash \<noteq> ''deadbeef''" "exCodeHash k \<noteq> ''deadbeef''"
proof -
  have "length ''deadbeef'' \<noteq> 64" by simp
  then show "exSnapshotHash \<noteq> ''deadbeef''" "exCodeHash k \<noteq> ''deadbeef''"
    unfolding exSnapshotHash_def exCodeHash_def by (rule digest_neq(1))+
qed

lemma exEnv_simps:
  "LoadLocalConfig (exEnv launch order) p = (Some exConfig, None)"
  "yamlUnmarshal (exEnv launch order) = (\<lambda>cnt. (Some launch, None))"
  "mapOrder (exEnv launch order) = order"
  "WalletPublicKeys (exEnv launch order) = None"
  "NewSnapshot (exEnv launch order) p = None"
  "ShuffleProducers (exEnv launch order) = None"
  "Run (exEnv launch order) = None"
  by (simp_all add: exEnv_def)

lemma exTwoWrong_mismatched: "mismatched exFiles exConfig exTwoWrong = [''bios'', ''system'']"
  by (simp add: mismatched_def contractMismatch_def contractNames_def contractMap_simps
      contractMatches_def newCC_def exConfig_simps exHashes exTwoWrong_def exLaunch_def
      ex_neq_deadbeef)

text \<open>The loop is decided by the first mismatch of the order: it returns an error that
  names this key, or no error when the order has no mismatch.\<close>

lemma rangeContracts_first_mismatch:
  "(List.find (contractMismatch fs m) order = None \<longrightarrow> fst (rangeContracts fs m order) = None)
   \<and> (\<forall>name. List.find (contractMismatch fs m) order = Some name \<longrightarrow>
         (\<exists>err. fst (rangeContracts fs m order) = Some err \<and> namedContracts err = [name]))"
proof (induction order)
  case Nil
  then show ?case by simp
next
  case (Cons n rest)
  show ?case
  proof (cases rule: rangeContracts_Cons_cases [where fs = fs and m = m and name = n and rest = rest])
    case skip
    with Cons show ?thesis by (simp add: contractMismatch_def)
  next
    case (error c p)
    then show ?thesis by (simp add: contractMismatch_def contractMatches_def)
  next
    case (mismatch c d)
    then show ?thesis by (simp add: contractMismatch_def contractMatches_def)
  next
    case (match c)
    with Cons show ?thesis by (simp add: contractMismatch_def contractMatches_def)
  qed
qed

text \<open>
  What the loop reports. With a manifest that is readable and unmarshals, a height that
  is set and a snapshot that matches, \<^verbatim>\<open>loadLaunchFile\<close> checks the contracts in the order
  in which the map is visited and stops at the first mismatch: it returns the launch
  data exactly when the order holds no mismatch, and otherwise an error that names the
  first mismatch of the order and no other contract.
\<close>

lemma first_mismatch_reported:
  assumes "fs filename = Some cnt" and "um cnt = (Some out, None)"
    and "LaunchBitcoinBlockHeight out \<noteq> 0" and "snapshotMatches fs cfg out"
  shows "(fst (loadLaunchFile um order fs filename (Some cfg)) = Return (Some out, None)
            \<longleftrightarrow> List.find (contractMismatch fs (contractMap cfg out)) order = None)
         \<and> (\<forall>name. List.find (contractMismatch fs (contractMap cfg out)) order = Some name \<longrightarrow>
              (\<exists>err. fst (loadLaunchFile um order fs filename (Some cfg)) = Return (None, Some err)
                     \<and> namedContracts err = [name]))"
proof -
  from assms(4) obtain s where s: "fs (SnapshotPath (OpeningBalances cfg)) = Some s"
    using snapshotMatches_None by (cases "fs (SnapshotPath (OpeningBalances cfg))") auto
  with assms(4) have d: "EncodeToString (Sum256 s) = OpeningBalancesSnapshotHash out"
    by (simp add: snapshotMatches_Some)
  note eq = loadLaunchFile_contracts
    [where fs = fs and um = um and order = order, OF assms(1-3) s d]
  show ?thesis
    using rangeContracts_first_mismatch [of fs "contractMap cfg out" order]
    by (cases "List.find (contractMismatch fs (contractMap cfg out)) order") (auto simp: eq)
qed

lemma first_mismatch_reported_example:
  "exFiles ''launch.yaml'' = Some [108, 97, 117, 110, 99, 104]
   \<and> LaunchBitcoinBlockHeight exTwoWrong \<noteq> 0
   \<and> snapshotMatches exFiles exConfig exTwoWrong
   \<and> List.find (contractMismatch exFiles (contractMap exConfig exTwoWrong))
        [''token'', ''msig'', ''system'', ''bios''] = Some ''system''
   \<and> (\<exists>err. fst (loadLaunchFile (\<lambda>cnt. (Some exTwoWrong, None))
                    [''token'', ''msig'', ''system'', ''bios''] exFiles ''launch.yaml''
                    (Some exConfig)) = Return (None, Some err)
             \<and> namedContracts err = [''system''])"
proof -
  have h: "LaunchBitcoinBlockHeight exTwoWrong \<noteq> 0"
    by (simp add: exTwoWrong_def exLaunch_def)
  have m: "snapshotMatches exFiles exConfig exTwoWrong"
    by (simp add: snapshotMatches_def exConfig_simps exHashes exTwoWrong_def exLaunch_def)
  have f: "List.find (contractMismatch exFiles (contractMap exConfig exTwoWrong))
        [''token'', ''msig'', ''system'', ''bios''] = Some ''system''"
    by (simp add: contractMismatch_def contractMap_simps contractMatches_def newCC_def
        exConfig_simps exHashes exTwoWrong_def exLaunch_def ex_neq_deadbeef)
  show ?thesis
    using h m f exFiles_simps(1)
      first_mismatch_reported
        [where fs = exFiles and um = "\<lambda>cnt. (Some exTwoWrong, None)" and cfg = exConfig
          and order = "[''token'', ''msig'', ''system'', ''bios'']",
          OF exFiles_simps(1) refl h m]
    by blast
qed

section \<open>The claims about \<^verbatim>\<open>loadLaunchFile\<close> and \<^verbatim>\<open>main\<close>\<close>

text \<open>
  C1 fails on the code. In the manifest \<open>exTwoWrong\<close> the declared hashes of the contracts
  \<^verbatim>\<open>bios\<close> and \<^verbatim>\<open>system\<close> both differ from the hashes of the local artifacts. The error
  of \<^verbatim>\<open>loadLaunchFile\<close> names the one of the two that the loop meets first, and not the
  other: \<^verbatim>\<open>bios\<close> in one order of the map, \<^verbatim>\<open>system\<close> in another.
\<close>

theorem two_mismatches_one_reported:
  "mismatched exFiles exConfig exTwoWrong = [''bios'', ''system'']
   \<and> fst (loadLaunchFile (\<lambda>cnt. (Some exTwoWrong, None)) [''bios'', ''system'', ''msig'', ''token'']
            exFiles ''launch.yaml'' (Some exConfig))
       = Return (None, Some (CodeHashMismatch ''bios''))
   \<and> fst (loadLaunchFile (\<lambda>cnt. (Some exTwoWrong, None)) [''token'', ''msig'', ''system'', ''bios'']
            exFiles ''launch.yaml'' (Some exConfig))
       = Return (None, Some (CodeHashMismatch ''system''))
   \<and> namedContracts (CodeHashMismatch ''bios'') = [''bios'']
   \<and> namedContracts (CodeHashMismatch ''system'') = [''system'']"
proof -
  have h: "LaunchBitcoinBlockHeight exTwoWrong \<noteq> 0"
    and s: "EncodeToString (Sum256 [97, 44, 49, 48]) = OpeningBalancesSnapshotHash exTwoWrong"
    by (simp_all add: exTwoWrong_def exLaunch_def exSnapshotHash_def)
  have f: "exFiles (SnapshotPath (OpeningBalances exConfig)) = Some [97, 44, 49, 48]"
    by (simp add: exConfig_simps exFiles_simps)
  note eq = loadLaunchFile_contracts
    [where fs = exFiles and um = "\<lambda>cnt. (Some exTwoWrong, None)" and cfg = exConfig,
      OF exFiles_simps(1) refl h f s]
  have hashes: "BIOS (ContractHashes exTwoWrong) = ''deadbeef''"
    "System (ContractHashes exTwoWrong) = ''deadbeef''"
    "Msig (ContractHashes exTwoWrong) = exCodeHash 3"
    "Token (ContractHashes exTwoWrong) = exCodeHash 4"
    by (simp_all add: exTwoWrong_def)
  have "fst (rangeContracts exFiles (contractMap exConfig exTwoWrong)
               [''bios'', ''system'', ''msig'', ''token'']) = Some (CodeHashMismatch ''bios'')"
    by (simp add: contractMap_simps newCC_def exConfig_simps exHashes hashes ex_neq_deadbeef)
  moreover
  have "fst (rangeContracts exFiles (contractMap exConfig exTwoWrong)
               [''token'', ''msig'', ''system'', ''bios'']) = Some (CodeHashMismatch ''system'')"
    by (simp add: contractMap_simps newCC_def exConfig_simps exHashes hashes ex_neq_deadbeef)
  ultimately show ?thesis
    by (simp add: eq exTwoWrong_mismatched)
qed

text \<open>
  C2. Take a run with both flags given, a configuration that loads, a manifest that is
  readable and unmarshals, and any order of the map. If the snapshot or some contract
  does not match the manifest, \<^verbatim>\<open>main\<close> ends in \<^verbatim>\<open>log.Fatalln("launch data error:", err)\<close>,
  and no event of the run is a network call or the producer shuffle.
\<close>

theorem mismatch_stops_before_network:
  assumes "localConfig \<noteq> []" and "launchData \<noteq> []"
    and "LoadLocalConfig e localConfig = (Some cfg, None)"
    and "fs launchData = Some cnt" and "yamlUnmarshal e cnt = (Some out, None)"
    and "rangeOrder (mapOrder e)"
    and "\<not> allMatch fs cfg out"
  shows "\<exists>err. fst (main e fs localConfig launchData) = Fatal ''launch data error:'' (Some err)
           \<and> list_all (\<lambda>ev. \<not> isNetworkCall ev \<and> ev \<noteq> EvShuffleProducers)
                (snd (main e fs localConfig launchData))"
proof -
  let ?l = "loadLaunchFile (yamlUnmarshal e) (mapOrder e) fs launchData (Some cfg)"
  have "\<exists>err. fst ?l = Return (None, Some err)"
  proof (cases "LaunchBitcoinBlockHeight out = 0")
    case True
    with assms(4,5) show ?thesis by (simp add: loadLaunchFile_height_zero)
  next
    case False
    show ?thesis
      by (rule loadLaunchFile_fails_iff(2)
          [where fs = fs and um = "yamlUnmarshal e", OF assms(4,5) False assms(6,7)])
  qed
  then obtain err where "fst ?l = Return (None, Some err)" ..
  with assms(1-3) have "main e fs localConfig launchData
      = (Fatal ''launch data error:'' (Some err), snd ?l)"
    by (rule main_launch_error)
  moreover have "list_all (\<lambda>ev. \<not> isNetworkCall ev \<and> ev \<noteq> EvShuffleProducers) (snd ?l)"
    using loadLaunchFile_local [of "yamlUnmarshal e" "mapOrder e" fs launchData "Some cfg"]
    by (auto simp: list_all_iff dest: isLocal_not_network)
  ultimately show ?thesis by simp
qed

theorem mismatch_stops_before_network_witness:
  "''config.yaml'' \<noteq> [] \<and> ''launch.yaml'' \<noteq> []
   \<and> LoadLocalConfig (exEnv exTwoWrong contractNames) ''config.yaml'' = (Some exConfig, None)
   \<and> exFiles ''launch.yaml'' = Some [108, 97, 117, 110, 99, 104]
   \<and> yamlUnmarshal (exEnv exTwoWrong contractNames) [108, 97, 117, 110, 99, 104]
       = (Some exTwoWrong, None)
   \<and> rangeOrder (mapOrder (exEnv exTwoWrong contractNames))
   \<and> \<not> allMatch exFiles exConfig exTwoWrong
   \<and> (\<exists>err. fst (main (exEnv exTwoWrong contractNames) exFiles ''config.yaml'' ''launch.yaml'')
               = Fatal ''launch data error:'' (Some err)
         \<and> list_all (\<lambda>ev. \<not> isNetworkCall ev \<and> ev \<noteq> EvShuffleProducers)
              (snd (main (exEnv exTwoWrong contractNames) exFiles ''config.yaml'' ''launch.yaml'')))"
proof -
  have h1: "''config.yaml'' \<noteq> []" and h2: "''launch.yaml'' \<noteq> []"
    by simp_all
  have h3: "LoadLocalConfig (exEnv exTwoWrong contractNames) ''config.yaml''
              = (Some exConfig, None)"
    and h5: "yamlUnmarshal (exEnv exTwoWrong contractNames) [108, 97, 117, 110, 99, 104]
              = (Some exTwoWrong, None)"
    and h6: "rangeOrder (mapOrder (exEnv exTwoWrong contractNames))"
    by (simp_all add: exEnv_simps rangeOrder_examples)
  have h7: "\<not> allMatch exFiles exConfig exTwoWrong"
    by (simp add: allMatch_def exTwoWrong_mismatched)
  show ?thesis
    using h1 h2 h3 exFiles_simps(1) h5 h6 h7
      mismatch_stops_before_network [where fs = exFiles, OF h1 h2 h3 exFiles_simps(1) h5 h6 h7]
    by blast
qed

text \<open>
  C3 fails on the code. The manifest \<open>exDuplicates\<close> holds two producer definitions with
  the account name \<^verbatim>\<open>alice\<close>. \<^verbatim>\<open>loadLaunchFile\<close> returns it with no error, and \<^verbatim>\<open>main\<close> goes
  on to create the API clients and to run the boot sequence.
\<close>

theorem duplicate_producers_accepted:
  "map AccountName (Producers (exDuplicates auth key)) = [''alice'', ''alice'']
   \<and> fst (loadLaunchFile (\<lambda>cnt. (Some (exDuplicates auth key), None)) contractNames
            exFiles ''launch.yaml'' (Some exConfig))
       = Return (Some (exDuplicates auth key), None)
   \<and> fst (main (exEnv (exDuplicates auth key) contractNames) exFiles ''config.yaml'' ''launch.yaml'')
       = Done
   \<and> EvNew ''http://localhost:8888''
        \<in> set (snd (main (exEnv (exDuplicates auth key) contractNames) exFiles
                       ''config.yaml'' ''launch.yaml''))
   \<and> EvRun
        \<in> set (snd (main (exEnv (exDuplicates auth key) contractNames) exFiles
                       ''config.yaml'' ''launch.yaml''))"
proof -
  have l: "fst (loadLaunchFile (\<lambda>cnt. (Some (exDuplicates auth key), None)) contractNames
                  exFiles ''launch.yaml'' (Some exConfig))
             = Return (Some (exDuplicates auth key), None)"
    unfolding exDuplicates_def by (rule exLaunch_loads [OF rangeOrder_examples(1)])
  have "main (exEnv (exDuplicates auth key) contractNames) exFiles ''config.yaml'' ''launch.yaml''
      = (Done,
         snd (loadLaunchFile (\<lambda>cnt. (Some (exDuplicates auth key), None)) contractNames
                exFiles ''launch.yaml'' (Some exConfig))
         @ [EvNew ''http://localhost:8888'', EvNew ''http://localhost:6666'',
            EvNewWalletSigner, EvSetSigner, EvWalletPublicKeys,
            EvNewSnapshot ''snapshot.csv'',
            EvNewBIOS, EvShuffleProducers, EvRun, EvPrintDone])"
    using main_success
      [where e = "exEnv (exDuplicates auth key) contractNames" and fs = exFiles
        and localConfig = "''config.yaml''" and launchData = "''launch.yaml''"
        and cfg = exConfig and launch = "exDuplicates auth key"]
      l
    by (simp add: exEnv_simps exConfig_simps)
  with l show ?thesis
    by (simp add: exDuplicates_def exLaunch_simps exProducer_def)
qed

text \<open>
  C7. When the manifest unmarshals to launch data whose \<^verbatim>\<open>launch_btc_block_height\<close> is 0
  (the value of a missing field as well), \<^verbatim>\<open>loadLaunchFile\<close> returns the error
  \<^verbatim>\<open>launch_btc_block_height unspecified (or 0)\<close> having done nothing but read the
  manifest, and \<^verbatim>\<open>main\<close> ends in \<^verbatim>\<open>log.Fatalln\<close> with this error: no file has been
  hashed and no network call made.
\<close>

theorem zero_height_aborts_first:
  assumes "localConfig \<noteq> []" and "launchData \<noteq> []"
    and "LoadLocalConfig e localConfig = (config, None)"
    and "fs launchData = Some cnt" and "yamlUnmarshal e cnt = (Some out, None)"
    and "LaunchBitcoinBlockHeight out = 0"
  shows "loadLaunchFile (yamlUnmarshal e) (mapOrder e) fs launchData config
           = (Return (None, Some HeightUnspecified), [EvReadFile launchData])
         \<and> main e fs localConfig launchData
           = (Fatal ''launch data error:'' (Some HeightUnspecified), [EvReadFile launchData])"
proof -
  have l: "loadLaunchFile (yamlUnmarshal e) (mapOrder e) fs launchData config
             = (Return (None, Some HeightUnspecified), [EvReadFile launchData])"
    using assms(4-6) by (rule loadLaunchFile_height_zero)
  then have "fst (loadLaunchFile (yamlUnmarshal e) (mapOrder e) fs launchData config)
               = Return (None, Some HeightUnspecified)"
    by simp
  with assms(1-3) have "main e fs localConfig launchData
      = (Fatal ''launch data error:'' (Some HeightUnspecified),
         snd (loadLaunchFile (yamlUnmarshal e) (mapOrder e) fs launchData config))"
    by (rule main_launch_error)
  with l show ?thesis by simp
qed

theorem zero_height_aborts_first_witness:
  "''config.yaml'' \<noteq> [] \<and> ''launch.yaml'' \<noteq> []
   \<and> LoadLocalConfig (exEnv exZeroHeight contractNames) ''config.yaml'' = (Some exConfig, None)
   \<and> exFiles ''launch.yaml'' = Some [108, 97, 117, 110, 99, 104]
   \<and> yamlUnmarshal (exEnv exZeroHeight contractNames) [108, 97, 117, 110, 99, 104]
       = (Some exZeroHeight, None)
   \<and> LaunchBitcoinBlockHeight exZeroHeight = 0
   \<and> main (exEnv exZeroHeight contractNames) exFiles ''config.yaml'' ''launch.yaml''
       = (Fatal ''launch data error:'' (Some HeightUnspecified), [EvReadFile ''launch.yaml''])"
proof -
  have h1: "''config.yaml'' \<noteq> []" and h2: "''launch.yaml'' \<noteq> []"
    by simp_all
  have h3: "LoadLocalConfig (exEnv exZeroHeight contractNames) ''config.yaml''
              = (Some exConfig, None)"
    and h5: "yamlUnmarshal (exEnv exZeroHeight contractNames) [108, 97, 117, 110, 99, 104]
              = (Some exZeroHeight, None)"
    and h6: "LaunchBitcoinBlockHeight exZeroHeight = 0"
    by (simp_all add: exEnv_simps exZeroHeight_def)
  show ?thesis
    using h1 h2 h3 exFiles_simps(1) h5 h6
      zero_height_aborts_first [where fs = exFiles, OF h1 h2 h3 exFiles_simps(1) h5 h6]
    by blast
qed

text \<open>
  C9. Whenever \<^verbatim>\<open>loadLaunchFile\<close> returns an error, the launch data it returns with it is
  nil.
\<close>

theorem loadLaunchFile_error_returns_nil:
  "fst (loadLaunchFile um order fs filename config) = Return (out, Some err) \<Longrightarrow> out = None"
proof (cases rule: loadLaunchFile_cases
    [where fs = fs and filename = filename and um = um and config = config])
  case unreadable
  assume "fst (loadLaunchFile um order fs filename config) = Return (out, Some err)"
  with unreadable show ?thesis by (simp add: loadLaunchFile_unreadable)
next
  case (unmarshal_error cnt out' err')
  assume "fst (loadLaunchFile um order fs filename config) = Return (out, Some err)"
  with unmarshal_error show ?thesis by (simp add: loadLaunchFile_unmarshal_error)
next
  case (nil_out cnt)
  assume "fst (loadLaunchFile um order fs filename config) = Return (out, Some err)"
  with nil_out show ?thesis by (simp add: loadLaunchFile_nil_out)
next
  case (height_zero cnt out')
  assume "fst (loadLaunchFile um order fs filename config) = Return (out, Some err)"
  with height_zero show ?thesis by (simp add: loadLaunchFile_height_zero)
next
  case (nil_config cnt out')
  assume "fst (loadLaunchFile um order fs filename config) = Return (out, Some err)"
  with nil_config show ?thesis by (simp add: loadLaunchFile_nil_config)
next
  case (snapshot_unreadable cnt out' cfg)
  assume "fst (loadLaunchFile um order fs filename config) = Return (out, Some err)"
  with snapshot_unreadable show ?thesis by (simp add: loadLaunchFile_snapshot_unreadable)
next
  case (snapshot_mismatch cnt out' cfg s)
  assume "fst (loadLaunchFile um order fs filename config) = Return (out, Some err)"
  with snapshot_mismatch show ?thesis by (simp add: loadLaunchFile_snapshot_mismatch)
next
  case (contracts cnt out' cfg s)
  assume "fst (loadLaunchFile um order fs filename config) = Return (out, Some err)"
  with contracts show ?thesis
    by (simp add: loadLaunchFile_contracts split: option.splits)
qed
theorem loadLaunchFile_error_returns_nil_witness:
  "fst (loadLaunchFile (\<lambda>cnt. (Some exWrongSnapshot, None)) contractNames exFiles
          ''launch.yaml'' (Some exConfig))
     = Return (None, Some SnapshotMismatch)"
proof -
  let ?l = "loadLaunchFile (\<lambda>cnt. (Some exWrongSnapshot, None)) contractNames exFiles
              ''launch.yaml'' (Some exConfig)"
  obtain out where o: "fst ?l = Return (out, Some SnapshotMismatch)"
    using loadLaunchFile_snapshot_mismatch
      [where fs = exFiles and um = "\<lambda>cnt. (Some exWrongSnapshot, None)" and cfg = exConfig
        and out = exWrongSnapshot and order = contractNames and s = "[97, 44, 49, 48]",
        OF exFiles_simps(1)]
      ex_neq_deadbeef(1)
    by (simp add: exConfig_simps exFiles_simps exWrongSnapshot_def exLaunch_def
        exSnapshotHash_def)
  from o loadLaunchFile_error_returns_nil [OF o] show ?thesis by simp
qed

text \<open>
  C10. With a manifest that is readable and unmarshals: when the block height is 0,
  \<^verbatim>\<open>loadLaunchFile\<close> returns the height error and has read the manifest only. When the
  height is set and the snapshot does not match, it returns the snapshot's read error
  or the snapshot mismatch, and the files it has read are the manifest and the
  snapshot: the loop over the contracts has not started.
\<close>

theorem checks_in_fixed_order:
  assumes "fs filename = Some cnt" and "um cnt = (Some out, None)"
  shows "(LaunchBitcoinBlockHeight out = 0 \<longrightarrow>
            loadLaunchFile um order fs filename config
              = (Return (None, Some HeightUnspecified), [EvReadFile filename]))
         \<and> (LaunchBitcoinBlockHeight out \<noteq> 0 \<and> \<not> snapshotMatches fs cfg out \<longrightarrow>
            loadLaunchFile um order fs filename (Some cfg)
              = (if fs (SnapshotPath (OpeningBalances cfg)) = None
                 then (Return (None, Some (PathError (SnapshotPath (OpeningBalances cfg)))),
                       [EvReadFile filename, EvReadFile (SnapshotPath (OpeningBalances cfg))])
                 else (Return (None, Some SnapshotMismatch),
                       [EvReadFile filename, EvReadFile (SnapshotPath (OpeningBalances cfg)),
                        EvDigest (fst (fst (hashFile fs (SnapshotPath (OpeningBalances cfg))))),
                        EvPrintSnapshotHash (SnapshotPath (OpeningBalances cfg))
                          (fst (fst (hashFile fs (SnapshotPath (OpeningBalances cfg)))))])))"
proof (intro conjI impI)
  assume "LaunchBitcoinBlockHeight out = 0"
  with assms show "loadLaunchFile um order fs filename config
      = (Return (None, Some HeightUnspecified), [EvReadFile filename])"
    by (rule loadLaunchFile_height_zero)
next
  let ?sp = "SnapshotPath (OpeningBalances cfg)"
  assume a: "LaunchBitcoinBlockHeight out \<noteq> 0 \<and> \<not> snapshotMatches fs cfg out"
  show "loadLaunchFile um order fs filename (Some cfg)
      = (if fs ?sp = None
         then (Return (None, Some (PathError ?sp)), [EvReadFile filename, EvReadFile ?sp])
         else (Return (None, Some SnapshotMismatch),
               [EvReadFile filename, EvReadFile ?sp, EvDigest (fst (fst (hashFile fs ?sp))),
                EvPrintSnapshotHash ?sp (fst (fst (hashFile fs ?sp)))]))"
  proof (cases "fs ?sp")
    case None
    with assms a show ?thesis by (simp add: loadLaunchFile_snapshot_unreadable)
  next
    case (Some s)
    with a have "EncodeToString (Sum256 s) \<noteq> OpeningBalancesSnapshotHash out"
      by (simp add: snapshotMatches_Some)
    with assms a Some show ?thesis
      by (simp add: loadLaunchFile_snapshot_mismatch hashFile_Some)
  qed
qed

theorem checks_in_fixed_order_witness:
  "exFiles ''launch.yaml'' = Some [108, 97, 117, 110, 99, 104]
   \<and> LaunchBitcoinBlockHeight exZeroHeight = 0
   \<and> loadLaunchFile (\<lambda>cnt. (Some exZeroHeight, None)) contractNames exFiles ''launch.yaml''
        (Some exConfig)
       = (Return (None, Some HeightUnspecified), [EvReadFile ''launch.yaml''])
   \<and> LaunchBitcoinBlockHeight exWrongSnapshot \<noteq> 0
   \<and> \<not> snapshotMatches exFiles exConfig exWrongSnapshot
   \<and> loadLaunchFile (\<lambda>cnt. (Some exWrongSnapshot, None)) contractNames exFiles ''launch.yaml''
        (Some exConfig)
       = (Return (None, Some SnapshotMismatch),
          [EvReadFile ''launch.yaml'', EvReadFile ''snapshot.csv'', EvDigest exSnapshotHash,
           EvPrintSnapshotHash ''snapshot.csv'' exSnapshotHash])"
proof -
  have z: "LaunchBitcoinBlockHeight exZeroHeight = 0"
    by (simp add: exZeroHeight_def)
  have w: "LaunchBitcoinBlockHeight exWrongSnapshot \<noteq> 0"
    by (simp add: exWrongSnapshot_def exLaunch_def)
  have m: "\<not> snapshotMatches exFiles exConfig exWrongSnapshot"
    using ex_neq_deadbeef(1)
    by (simp add: snapshotMatches_def exConfig_simps exHashes exWrongSnapshot_def)
  show ?thesis
    using z w m exFiles_simps(1,2)
      checks_in_fixed_order
        [where fs = exFiles and um = "\<lambda>cnt. (Some exZeroHeight, None)" and out = exZeroHeight
          and order = contractNames and config = "Some exConfig",
          OF exFiles_simps(1) refl]
      checks_in_fixed_order
        [where fs = exFiles and um = "\<lambda>cnt. (Some exWrongSnapshot, None)"
          and out = exWrongSnapshot and order = contractNames and cfg = exConfig,
          OF exFiles_simps(1) refl]
    by (simp add: exConfig_simps exHashes)
qed

text \<open>
  C8. In every run of \<^verbatim>\<open>loadLaunchFile\<close>, each digest a hasher computes is printed at
  once, before it is compared. When the run returns the launch data, with the map
  visited in any of its orders, the hashes printed are the five the manifest declares:
  the snapshot's and the four contracts'.
\<close>

theorem computed_hashes_printed:
  "audited (snd (loadLaunchFile um order fs filename config))
   \<and> (fst (loadLaunchFile um order fs filename config) = Return (Some out, None)
        \<and> rangeOrder order \<longrightarrow>
      mset (printedHashes (snd (loadLaunchFile um order fs filename config)))
        = mset [OpeningBalancesSnapshotHash out,
                BIOS (ContractHashes out), System (ContractHashes out),
                Msig (ContractHashes out), Token (ContractHashes out)])"
proof (intro conjI impI)
  show "audited (snd (loadLaunchFile um order fs filename config))"
    by (rule loadLaunchFile_audited)
next
  let ?l = "loadLaunchFile um order fs filename config"
  assume a: "fst ?l = Return (Some out, None) \<and> rangeOrder order"
  show "mset (printedHashes (snd ?l))
      = mset [OpeningBalancesSnapshotHash out,
              BIOS (ContractHashes out), System (ContractHashes out),
              Msig (ContractHashes out), Token (ContractHashes out)]"
  proof (cases rule: loadLaunchFile_cases
      [where fs = fs and filename = filename and um = um and config = config])
    case unreadable
    with a show ?thesis by (simp add: loadLaunchFile_unreadable)
  next
    case (unmarshal_error cnt out' err)
    with a show ?thesis by (simp add: loadLaunchFile_unmarshal_error)
  next
    case (nil_out cnt)
    with a show ?thesis by (simp add: loadLaunchFile_nil_out)
  next
    case (height_zero cnt out')
    with a show ?thesis by (simp add: loadLaunchFile_height_zero)
  next
    case (nil_config cnt out')
    with a show ?thesis by (simp add: loadLaunchFile_nil_config)
  next
    case (snapshot_unreadable cnt out' cfg)
    with a show ?thesis by (simp add: loadLaunchFile_snapshot_unreadable)
  next
    case (snapshot_mismatch cnt out' cfg s)
    with a show ?thesis by (simp add: loadLaunchFile_snapshot_mismatch)
  next
    case (contracts cnt out' cfg s)
    note eq = loadLaunchFile_contracts
      [where fs = fs and um = um and order = order, OF contracts(1-3,5,6)]
    let ?m = "contractMap cfg out'"
    from a contracts(4) eq have r: "fst (rangeContracts fs ?m order) = None" and o: "out' = out"
      by (simp_all split: option.splits)
    have dom: "filter (\<lambda>n. ?m n \<noteq> None) order = order"
      using a by (auto simp: rangeOrder_def contractNames_def contractMap_simps)
    have "distinct contractNames"
      by (simp add: contractNames_def)
    with a have "mset order = mset contractNames"
      by (simp add: rangeOrder_def set_eq_iff_mset_eq_distinct [symmetric])
    then have "mset (map (\<lambda>n. hash (the (?m n))) order)
        = mset (map (\<lambda>n. hash (the (?m n))) contractNames)"
      by (simp only: mset_map)
    also have "\<dots> = mset [BIOS (ContractHashes out'), System (ContractHashes out'),
        Msig (ContractHashes out'), Token (ContractHashes out')]"
      by (simp add: contractNames_def contractMap_simps newCC_def)
    finally have "mset (printedHashes (snd (rangeContracts fs ?m order)))
        = mset [BIOS (ContractHashes out'), System (ContractHashes out'),
            Msig (ContractHashes out'), Token (ContractHashes out')]"
      using rangeContracts_success [OF r] dom by simp
    with contracts(4) o show ?thesis
      by (simp add: eq printedHashes_append)
        (simp add: printedHashes_def printedHash_def)
  qed
qed

theorem computed_hashes_printed_witness:
  "audited (snd (loadLaunchFile (\<lambda>cnt. (Some (exLaunch []), None))
                   [''token'', ''msig'', ''system'', ''bios''] exFiles ''launch.yaml''
                   (Some exConfig)))
   \<and> fst (loadLaunchFile (\<lambda>cnt. (Some (exLaunch []), None))
            [''token'', ''msig'', ''system'', ''bios''] exFiles ''launch.yaml'' (Some exConfig))
       = Return (Some (exLaunch []), None)
   \<and> rangeOrder [''token'', ''msig'', ''system'', ''bios'']
   \<and> mset (printedHashes (snd (loadLaunchFile (\<lambda>cnt. (Some (exLaunch []), None))
                   [''token'', ''msig'', ''system'', ''bios''] exFiles ''launch.yaml''
                   (Some exConfig))))
       = mset [exSnapshotHash, exCodeHash 1, exCodeHash 2, exCodeHash 3, exCodeHash 4]"
proof -
  have l: "fst (loadLaunchFile (\<lambda>cnt. (Some (exLaunch []), None))
            [''token'', ''msig'', ''system'', ''bios''] exFiles ''launch.yaml'' (Some exConfig))
       = Return (Some (exLaunch []), None)"
    by (rule exLaunch_loads [OF rangeOrder_examples(3)])
  show ?thesis
    using l rangeOrder_examples(3)
      computed_hashes_printed
        [of "\<lambda>cnt. (Some (exLaunch []), None)" "[''token'', ''msig'', ''system'', ''bios'']"
          exFiles "''launch.yaml''" "Some exConfig" "exLaunch []"]
    by (simp add: exLaunch_simps)
qed

end
